theory Spec2Isabelle
  imports Complex_Main
begin

section \<open>JavaScript values\<close>

text \<open>
  A JavaScript string is a sequence of UTF-16 code units, so a string is a list of
  natural numbers here: the en dash of the event pattern is the single unit 8211, and
  \<open>substring\<close>, \<open>trim\<close> and the regular expressions count and classify code units.
  \<open>str\<close> embeds an ASCII literal. A JavaScript number is a real. In the handler the
  arithmetic is exact: the rounding error of its double operations is outside the model.
  In the two functions of \<open>demand.ts\<close> every literal and every operation is rounded to
  the nearest double (\<open>double\<close> below), as the code computes it. \<open>NaN\<close> is written
  \<open>None\<close> where the code can produce it.
\<close>

type_synonym jstring = "nat list"

definition str :: "string \<Rightarrow> jstring" where
  "str s = map of_char s"

text \<open>\<open>Math.round\<close>: the nearest integer, a tie going up.\<close>

definition Math_round :: "real \<Rightarrow> real" where
  "Math_round x = of_int \<lfloor>x + 1 / 2\<rfloor>"

text \<open>
  The nearest double of a real: 53 significant bits, a tie going to the even neighbour
  (IEEE 754 binary64, round to nearest even). \<open>ulp x\<close> is the distance of two
  neighbouring doubles at the magnitude of \<open>x\<close>: the power of two \<open>u\<close> with
  \<open>2^52 \<le> |x| / u < 2^53\<close>, found by halving or doubling from 1, and \<open>2^-1074\<close> at
  the least (the subnormal doubles). Magnitudes from \<open>2^1024\<close> on, where the code gives
  \<open>Infinity\<close>, are outside the model.
\<close>

fun halve_ulp :: "nat \<Rightarrow> real \<Rightarrow> real \<Rightarrow> real" where
  "halve_ulp 0 y u = u"
| "halve_ulp (Suc n) y u = (if y < 2 ^ 52 then halve_ulp n (y * 2) (u / 2) else u)"

fun double_ulp :: "nat \<Rightarrow> real \<Rightarrow> real \<Rightarrow> real" where
  "double_ulp 0 y u = u"
| "double_ulp (Suc n) y u = (if 2 ^ 53 \<le> y then double_ulp n (y / 2) (u * 2) else u)"

definition ulp :: "real \<Rightarrow> real" where
  "ulp x = (if 2 ^ 53 \<le> \<bar>x\<bar> then double_ulp 971 \<bar>x\<bar> 1 else halve_ulp 1074 \<bar>x\<bar> 1)"

definition round_half_even :: "real \<Rightarrow> int" where
  "round_half_even q =
     (let f = \<lfloor>q\<rfloor>; r = q - of_int f
      in if r < 1 / 2 then f else if 1 / 2 < r then f + 1 else if even f then f else f + 1)"

definition double :: "real \<Rightarrow> real" where
  "double x = (if x = 0 then 0 else of_int (round_half_even (x / ulp x)) * ulp x)"

text \<open>The value of \<open>JSON.parse\<close>; an object lists its properties, each key once.\<close>

datatype json =
    JNull
  | JBool bool
  | JNum real
  | JStr jstring
  | JArr "json list"
  | JObj "(jstring \<times> json) list"

text \<open>Reading a property: \<open>None\<close> is \<open>undefined\<close>. Only objects carry the properties
  that the code reads.\<close>

fun get_prop :: "json \<Rightarrow> jstring \<Rightarrow> json option" where
  "get_prop (JObj kvs) k = map_of kvs k"
| "get_prop _ k = None"

fun truthy :: "json \<Rightarrow> bool" where
  "truthy JNull = False"
| "truthy (JBool b) = b"
| "truthy (JNum r) = (r \<noteq> 0)"
| "truthy (JStr s) = (s \<noteq> [])"
| "truthy (JArr _) = True"
| "truthy (JObj _) = True"

text \<open>\<open>a || d\<close> for a property read \<open>a\<close>.\<close>

fun or_else :: "json option \<Rightarrow> json \<Rightarrow> json" where
  "or_else None d = d"
| "or_else (Some v) d = (if truthy v then v else d)"

text \<open>Writing a property the way an object literal with a spread does: an existing key
  keeps its place and takes the new value, a new key goes last.\<close>

fun set_prop :: "(jstring \<times> json) list \<Rightarrow> jstring \<Rightarrow> json \<Rightarrow> (jstring \<times> json) list" where
  "set_prop [] k v = [(k, v)]"
| "set_prop ((k', v') # kvs) k v =
     (if k' = k then (k, v) # kvs else (k', v') # set_prop kvs k v)"

text \<open>The own properties that \<open>{...x}\<close> copies. The handler spreads only the result of
  \<open>getPriceInsightFromGemini\<close>, which is an object.\<close>

fun props :: "json \<Rightarrow> (jstring \<times> json) list" where
  "props (JObj kvs) = kvs"
| "props _ = []"

text \<open>A thrown \<open>Error\<close> with its message.\<close>

datatype error = Error jstring

fun message :: "error \<Rightarrow> jstring" where
  "message (Error m) = m"

text \<open>The decimal digits of a number in a template string.\<close>

fun show_nat :: "nat \<Rightarrow> jstring" where
  "show_nat n = (if n < 10 then [48 + n] else show_nat (n div 10) @ [48 + n mod 10])"

declare show_nat.simps [simp del]

text \<open>
  The functions of the JavaScript runtime that the code calls and that are not written
  out here: \<open>JSON.parse\<close> (\<open>Inl\<close> is the message of the \<open>SyntaxError\<close> it throws),
  the \<open>Date\<close> constructor read through \<open>getTime\<close> (milliseconds) and \<open>getMonth\<close>
  (0 to 11), both \<open>None\<close> for an invalid date, and \<open>toLowerCase\<close>.
\<close>

record runtime =
  JSON_parse :: "jstring \<Rightarrow> jstring + json"
  Date_getTime :: "jstring \<Rightarrow> int option"
  Date_getMonth :: "jstring \<Rightarrow> int option"
  toLowerCase :: "jstring \<Rightarrow> jstring"

section \<open>The recommendation requester\<close>

record hotel_part =
  hotel_name :: jstring
  city :: jstring
  rating :: real
  reviews :: real

record city_prices =
  min_price :: real
  avg_price :: real
  max_price :: real

record stay_details =
  check_in :: jstring
  check_out :: jstring
  nights :: "real option"
  guests :: real

record demand_part =
  is_peak_month :: bool
  peak_months :: jstring
  event_active :: bool
  event_name :: "jstring option"

record budget =
  budget_min :: "real option"
  budget_max :: "real option"

record price_range =
  range_min :: real
  range_max :: real

text \<open>The payload of the prompt. The nested objects of the source are records; the
  fields \<open>min\<close> and \<open>max\<close> of \<open>user_budget\<close> and of \<open>calculated_range\<close> carry
  the name of their object, and \<open>hotel_base_price.price_per_night\<close> and
  \<open>stay_details\<close> are \<open>price_per_night\<close> and \<open>stay\<close>.\<close>

record payload =
  hotel :: hotel_part
  base_city_prices :: city_prices
  price_per_night :: real
  stay :: stay_details
  demand_context :: demand_part
  user_budget :: budget
  calculated_range :: price_range

text \<open>What \<open>fetch\<close> gave: it rejected (a network error, with its message), or it
  answered with a status, the text of the body, and the body read as JSON:
  \<open>Inl\<close> when \<open>response.json()\<close> rejects, else
  \<open>data.candidates?.[0]?.content?.parts?.[0]?.text\<close>, \<open>None\<close> when that path is absent.\<close>

datatype gemini_reply =
    Rejected jstring
  | Responded nat jstring "jstring + jstring option"

definition response_ok :: "nat \<Rightarrow> bool" where
  "response_ok status = (200 \<le> status \<and> status \<le> 299)"

text \<open>\<open>content.match(/\{[\s\S]*\}/)\<close>: from the first opening brace to the last closing
  brace after it.\<close>

definition match_braces :: "jstring \<Rightarrow> jstring option" where
  "match_braces content =
     (let from_open = dropWhile (\<lambda>c. c \<noteq> 123) content;
          span = rev (dropWhile (\<lambda>c. c \<noteq> 125) (rev from_open))
      in if span = [] then None else Some span)"

text \<open>The test under \<open>VALIDATE RESPONSE STRUCTURE\<close>. Reading a property of \<open>null\<close>
  throws inside the same \<open>try\<close>, so \<open>null\<close> is invalid as well.\<close>

definition is_number :: "json option \<Rightarrow> bool" where
  "is_number v = (case v of Some (JNum _) \<Rightarrow> True | _ \<Rightarrow> False)"

definition fairness_labels :: "json list" where
  "fairness_labels = [JStr (str ''cheap''), JStr (str ''fair''), JStr (str ''expensive'')]"

definition invalid_structure :: "json \<Rightarrow> bool" where
  "invalid_structure r =
     (if \<not> is_number (get_prop r (str ''recommended_min_price'')) then True
      else if \<not> is_number (get_prop r (str ''recommended_max_price'')) then True
      else if (case get_prop r (str ''fairness_label'') of
                 None \<Rightarrow> True | Some l \<Rightarrow> l \<notin> set fairness_labels) then True
      else (case get_prop r (str ''confidence_score'') of
              Some (JNum c) \<Rightarrow>
                (if c < 0 then True else if c > 1 then True
                 else (case get_prop r (str ''explanation'') of
                         None \<Rightarrow> True | Some e \<Rightarrow> \<not> truthy e))
            | _ \<Rightarrow> True))"

text \<open>The two attempts to read the text: \<open>JSON.parse\<close> of all of it, then of the
  span between the braces. \<open>None\<close> when the second attempt throws as well.\<close>

definition parse_content :: "runtime \<Rightarrow> jstring \<Rightarrow> json option" where
  "parse_content rt content =
     (case JSON_parse rt content of
        Inr v \<Rightarrow> Some v
      | Inl _ \<Rightarrow>
          (case match_braces content of
             None \<Rightarrow> None
           | Some jsonMatch \<Rightarrow>
               (case JSON_parse rt jsonMatch of Inr v \<Rightarrow> Some v | Inl _ \<Rightarrow> None)))"

text \<open>The body of the \<open>try\<close>: \<open>None\<close> when it throws.\<close>

definition parse_response :: "runtime \<Rightarrow> jstring option \<Rightarrow> json option" where
  "parse_response rt content =
     (case content of
        None \<Rightarrow> None
      | Some c \<Rightarrow>
          if c = [] then None
          else (case parse_content rt c of
                  None \<Rightarrow> None
                | Some aiResponse \<Rightarrow>
                    if invalid_structure aiResponse then None else Some aiResponse))"

text \<open>The \<open>catch\<close>: the deterministic recommendation.\<close>

definition fairness :: "payload \<Rightarrow> jstring" where
  "fairness p =
     (let avgRecommended = (range_min (calculated_range p) + range_max (calculated_range p)) / 2;
          cityAvg = avg_price (base_city_prices p)
      in if avgRecommended < cityAvg * (8 / 10) then str ''cheap''
         else if avgRecommended > cityAvg * (13 / 10) then str ''expensive''
         else str ''fair'')"

definition explanation :: "payload \<Rightarrow> jstring" where
  "explanation p =
     str ''Price recommendation based on demand analysis. ''
     @ (if is_peak_month (demand_context p) then str ''Peak season pricing applies. '' else [])
     @ (if event_active (demand_context p)
        then (case event_name (demand_context p) of None \<Rightarrow> str ''null'' | Some n \<Rightarrow> n)
             @ str '' is happening during your dates. ''
        else [])
     @ str ''This is a calculated estimate.''"

definition fallback :: "payload \<Rightarrow> json" where
  "fallback p = JObj
     [(str ''recommended_min_price'', JNum (Math_round (range_min (calculated_range p)))),
      (str ''recommended_max_price'', JNum (Math_round (range_max (calculated_range p)))),
      (str ''fairness_label'', JStr (fairness p)),
      (str ''confidence_score'', JNum (6 / 10)),
      (str ''explanation'', JStr (explanation p))]"

definition rate_limit_message :: jstring where
  "rate_limit_message =
     str ''RATE_LIMIT: Our AI service is currently busy. Please wait a minute and try again.''"

definition getPriceInsightFromGemini :: "runtime \<Rightarrow> payload \<Rightarrow> gemini_reply \<Rightarrow> error + json" where
  "getPriceInsightFromGemini rt p reply =
     (case reply of
        Rejected m \<Rightarrow> Inl (Error m)
      | Responded status errorText data \<Rightarrow>
          if \<not> response_ok status then
            (if status = 429 then Inl (Error rate_limit_message)
             else Inl (Error (str ''Gemini API returned '' @ show_nat status @ str '': ''
                              @ take 200 errorText)))
          else (case data of
                  Inl m \<Rightarrow> Inl (Error m)
                | Inr content \<Rightarrow>
                    (case parse_response rt content of
                       Some aiResponse \<Rightarrow> Inr aiResponse
                     | None \<Rightarrow> Inr (fallback p))))"

section \<open>Strings, numbers and the event pattern\<close>

text \<open>The code units that \<open>\s\<close>, \<open>trim\<close> and \<open>parseInt\<close> treat as white space (line
  terminators included), and those that \<open>.\<close> does not match.\<close>

definition is_white_space :: "nat \<Rightarrow> bool" where
  "is_white_space c =
     (c \<in> {9, 10, 11, 12, 13, 32, 160, 5760, 8232, 8233, 8239, 8287, 12288, 65279}
      \<or> (8192 \<le> c \<and> c \<le> 8202))"

definition is_line_terminator :: "nat \<Rightarrow> bool" where
  "is_line_terminator c = (c \<in> {10, 13, 8232, 8233})"

definition is_digit :: "nat \<Rightarrow> bool" where
  "is_digit c = (48 \<le> c \<and> c \<le> 57)"

definition trim :: "jstring \<Rightarrow> jstring" where
  "trim s = rev (dropWhile is_white_space (rev (dropWhile is_white_space s)))"

text \<open>\<open>s.split(sep)\<close> for a separator of one code unit.\<close>

fun split_on :: "nat \<Rightarrow> jstring \<Rightarrow> jstring list" where
  "split_on sep [] = [[]]"
| "split_on sep (c # cs) =
     (if c = sep then [] # split_on sep cs
      else (case split_on sep cs of [] \<Rightarrow> [[c]] | p # ps \<Rightarrow> (c # p) # ps))"

definition starts_with :: "jstring \<Rightarrow> jstring \<Rightarrow> bool" where
  "starts_with pat s = (take (length pat) s = pat)"

text \<open>\<open>s.replace(pat, rep)\<close> for a string pattern: the first occurrence only.\<close>

fun replace_first :: "jstring \<Rightarrow> jstring \<Rightarrow> jstring \<Rightarrow> jstring" where
  "replace_first pat rep [] = (if pat = [] then rep else [])"
| "replace_first pat rep (c # cs) =
     (if starts_with pat (c # cs) then rep @ drop (length pat) (c # cs)
      else c # replace_first pat rep cs)"

text \<open>\<open>hay.includes(needle)\<close> on strings.\<close>

fun includes_str :: "jstring \<Rightarrow> jstring \<Rightarrow> bool" where
  "includes_str [] needle = (needle = [])"
| "includes_str (c # cs) needle =
     (if starts_with needle (c # cs) then True else includes_str cs needle)"

text \<open>\<open>parseInt(s)\<close> with no radix: leading white space and a sign are skipped, \<open>0x\<close>
  selects base 16, the longest run of digits is read, and no digit gives \<open>NaN\<close>.\<close>

definition radix_digit :: "nat \<Rightarrow> nat \<Rightarrow> nat option" where
  "radix_digit R c =
     (let d = (if 48 \<le> c \<and> c \<le> 57 then c - 48
               else if 97 \<le> c \<and> c \<le> 122 then c - 87
               else if 65 \<le> c \<and> c \<le> 90 then c - 55
               else R)
      in if d < R then Some d else None)"

definition parseInt :: "jstring \<Rightarrow> int option" where
  "parseInt s =
     (let S = dropWhile is_white_space s;
          sign = (case S of c # _ \<Rightarrow> if c = 45 then - 1 else 1 | [] \<Rightarrow> (1 :: int));
          S1 = (case S of c # r \<Rightarrow> if c = 45 then r else if c = 43 then r else S | [] \<Rightarrow> S);
          hex = (case S1 of a # b # _ \<Rightarrow> a = 48 \<and> (b = 120 \<or> b = 88) | _ \<Rightarrow> False);
          R = (if hex then 16 else 10);
          S2 = (if hex then drop 2 S1 else S1);
          Z = takeWhile (\<lambda>c. radix_digit R c \<noteq> None) S2
      in if Z = [] then None
         else Some (sign * int (foldl (\<lambda>acc c. case radix_digit R c of
                                                    Some d \<Rightarrow> acc * R + d
                                                  | None \<Rightarrow> acc) 0 Z)))"

text \<open>
  The event pattern
  \<^verbatim>\<open>/(.+?)\s*\((\d{4}-\d{2}-\d{2})-(\d{4}-\d{2}-\d{2})\)/\<close>, the separator of the two
  dates being the en dash (code unit 8211) in the source.
  \<open>match_date\<close> reads \<^verbatim>\<open>\d{4}-\d{2}-\d{2}\<close> at the head of the text and returns it with
  the rest; \<open>match_dates\<close> reads everything after the name.
\<close>

fun match_date :: "jstring \<Rightarrow> (jstring \<times> jstring) option" where
  "match_date (y1 # y2 # y3 # y4 # h1 # m1 # m2 # h2 # d1 # d2 # rest) =
     (if is_digit y1 \<and> is_digit y2 \<and> is_digit y3 \<and> is_digit y4 \<and> h1 = 45
         \<and> is_digit m1 \<and> is_digit m2 \<and> h2 = 45 \<and> is_digit d1 \<and> is_digit d2
      then Some ([y1, y2, y3, y4, h1, m1, m2, h2, d1, d2], rest) else None)"
| "match_date _ = None"

definition match_dates :: "jstring \<Rightarrow> (jstring \<times> jstring) option" where
  "match_dates xs =
     (case dropWhile is_white_space xs of
        [] \<Rightarrow> None
      | c # r1 \<Rightarrow>
          if c \<noteq> 40 then None
          else (case match_date r1 of
                  None \<Rightarrow> None
                | Some (start, r2) \<Rightarrow>
                    (case r2 of
                       [] \<Rightarrow> None
                     | dash # r3 \<Rightarrow>
                         if dash \<noteq> 8211 then None
                         else (case match_date r3 of
                                 None \<Rightarrow> None
                               | Some (finish, r4) \<Rightarrow>
                                   (case r4 of
                                      [] \<Rightarrow> None
                                    | close # _ \<Rightarrow>
                                        if close = 41 then Some (start, finish) else None)))))"

text \<open>The lazy name at a fixed starting point: one more code unit at a time (none of them
  a line terminator) until the dates follow. \<open>acc\<close> is the name read so far, reversed.\<close>

fun lazy_name :: "jstring \<Rightarrow> jstring \<Rightarrow> (jstring \<times> jstring \<times> jstring) option" where
  "lazy_name acc [] = None"
| "lazy_name acc (c # cs) =
     (if is_line_terminator c then None
      else (case match_dates cs of
              Some (start, finish) \<Rightarrow> Some (rev (c # acc), start, finish)
            | None \<Rightarrow> lazy_name (c # acc) cs))"

text \<open>\<open>eventStr.match(...)\<close>: the leftmost starting point that matches; the result is
  the three groups (name, start, end).\<close>

fun match_event :: "jstring \<Rightarrow> (jstring \<times> jstring \<times> jstring) option" where
  "match_event [] = None"
| "match_event (c # cs) =
     (case lazy_name [] (c # cs) of
        Some m \<Rightarrow> Some m
      | None \<Rightarrow> match_event cs)"

text \<open>Comparison of two \<open>Date\<close> objects: by their time values, and false when either is
  invalid.\<close>

definition date_le :: "runtime \<Rightarrow> jstring \<Rightarrow> jstring \<Rightarrow> bool" where
  "date_le rt a b =
     (case Date_getTime rt a of
        None \<Rightarrow> False
      | Some x \<Rightarrow> (case Date_getTime rt b of None \<Rightarrow> False | Some y \<Rightarrow> x \<le> y))"

section \<open>The request orchestrator\<close>

text \<open>The rows of the four tables, the request, and the world a request meets: the
  clock, the tables, the configured key, what the AI provider answers, the
  \<open>created_at\<close> the table gives a new row, and the clock text of an error body.
  Times are milliseconds. A price column that is \<open>null\<close> behaves as 0 under \<open>||\<close>
  and is written 0.\<close>

record hotel_row =
  row_id :: int
  row_hotel_name :: jstring
  row_city :: jstring
  row_rating :: "real option"
  number_of_reviews :: "real option"
  row_price_per_night :: real

record city_stats_row =
  stats_city :: jstring
  stats_min_price :: real
  stats_avg_price :: real
  stats_max_price :: real

record city_demand_row =
  demand_city :: jstring
  demand_peak_months :: "jstring option"
  demand_events :: "jstring option"

record prediction =
  pred_hotel_id :: int
  pred_city :: jstring
  pred_check_in :: jstring
  pred_check_out :: jstring
  pred_nights :: "real option"
  calculated_min :: real
  calculated_max :: real
  gemini_response :: json
  created_at :: int

record stay_request =
  hotel_id :: int
  req_city :: jstring
  req_check_in :: jstring
  req_check_out :: jstring
  req_guests :: real
  req_budget_min :: "real option"
  req_budget_max :: "real option"

record request =
  req_method :: jstring
  req_json :: "jstring + stay_request"

record world =
  now :: int
  price_predictions :: "prediction list"
  hotels_india :: "hotel_row list"
  city_price_stats :: "city_stats_row list"
  city_demand :: "city_demand_row list"
  GEMINI_API_KEY :: "jstring option"
  gemini :: gemini_reply
  insert_at :: int
  error_time :: jstring

record response =
  res_status :: nat
  res_body :: "json option"

definition CACHE_DURATION_HOURS :: int where
  "CACHE_DURATION_HOURS = 24"

text \<open>\<open>.single()\<close> and \<open>.maybeSingle()\<close>: the row when exactly one is selected.\<close>

fun single :: "'a list \<Rightarrow> 'a option" where
  "single [r] = Some r"
| "single _ = None"

text \<open>\<open>.order('created_at', {ascending: false}).limit(1)\<close>: a row with the greatest
  \<open>created_at\<close>; of several such rows the model takes the first in the table.\<close>

fun latest :: "prediction list \<Rightarrow> prediction option" where
  "latest [] = None"
| "latest (r # rs) =
     (case latest rs of
        None \<Rightarrow> Some r
      | Some b \<Rightarrow> if created_at r < created_at b then Some b else Some r)"

definition cache_key :: "stay_request \<Rightarrow> prediction \<Rightarrow> bool" where
  "cache_key q r =
     (pred_hotel_id r = hotel_id q \<and> pred_city r = req_city q
      \<and> pred_check_in r = req_check_in q \<and> pred_check_out r = req_check_out q)"

definition cacheExpiryTime :: "world \<Rightarrow> int" where
  "cacheExpiryTime w = now w - CACHE_DURATION_HOURS * 3600000"

definition cachedPrediction :: "world \<Rightarrow> stay_request \<Rightarrow> prediction option" where
  "cachedPrediction w q =
     latest (filter (\<lambda>r. cache_key q r \<and> cacheExpiryTime w \<le> created_at r)
               (price_predictions w))"

text \<open>A stored multiplier used as a number. The handler stores a number; the conversion
  of a string, an array or an object is not modelled (\<open>None\<close>).\<close>

fun as_number :: "json \<Rightarrow> real option" where
  "as_number (JNum r) = Some r"
| "as_number (JBool b) = Some (if b then 1 else 0)"
| "as_number JNull = Some 0"
| "as_number _ = None"

definition rounded_quotient :: "real \<Rightarrow> json \<Rightarrow> json" where
  "rounded_quotient x m =
     (case as_number m of
        None \<Rightarrow> JNull
      | Some d \<Rightarrow> if d = 0 then JNull else JNum (Math_round (x / d)))"

definition cached_response :: "prediction \<Rightarrow> json" where
  "cached_response c =
     (let demandMultiplier = or_else (get_prop (gemini_response c) (str ''demand_multiplier'')) (JNum 1)
      in JObj
        [(str ''cached'', JBool True),
         (str ''base_city_prices'', JObj
            [(str ''min'', rounded_quotient (calculated_min c) demandMultiplier),
             (str ''avg'', rounded_quotient ((calculated_min c + calculated_max c) / 2) demandMultiplier),
             (str ''max'', rounded_quotient (calculated_max c) demandMultiplier)]),
         (str ''adjusted_prices'', JObj
            [(str ''min'', JNum (calculated_min c)),
             (str ''avg'', JNum (Math_round ((calculated_min c + calculated_max c) / 2))),
             (str ''max'', JNum (calculated_max c)),
             (str ''multiplier'', demandMultiplier)]),
         (str ''ai_recommendation'', gemini_response c),
         (str ''demand_context'', JObj
            [(str ''is_peak_month'',
                or_else (get_prop (gemini_response c) (str ''is_peak_month'')) (JBool False)),
             (str ''event_active'',
                or_else (get_prop (gemini_response c) (str ''event_active'')) (JBool False)),
             (str ''event_name'',
                or_else (get_prop (gemini_response c) (str ''event_name'')) JNull),
             (str ''demand_multiplier'', demandMultiplier)])])"

text \<open>The demand context of the binary model (lines 302 to 333 of the handler).
  \<open>Array.prototype.includes\<close> compares by SameValueZero, under which \<open>NaN\<close> equals
  \<open>NaN\<close>: equality of \<open>int option\<close>.\<close>

definition checkInMonth :: "runtime \<Rightarrow> jstring \<Rightarrow> int option" where
  "checkInMonth rt ci = map_option (\<lambda>m. m + 1) (Date_getMonth rt ci)"

definition peakMonths :: "city_demand_row option \<Rightarrow> int option list" where
  "peakMonths cityDemand =
     (case cityDemand of
        None \<Rightarrow> []
      | Some d \<Rightarrow>
          (case demand_peak_months d of
             None \<Rightarrow> []
           | Some s \<Rightarrow> map (\<lambda>m. parseInt (trim m)) (split_on 44 s)))"

definition isPeakMonth :: "runtime \<Rightarrow> city_demand_row option \<Rightarrow> jstring \<Rightarrow> bool" where
  "isPeakMonth rt cityDemand ci = (checkInMonth rt ci \<in> set (peakMonths cityDemand))"

definition eventParts :: "city_demand_row option \<Rightarrow> jstring list" where
  "eventParts cityDemand =
     (case cityDemand of
        None \<Rightarrow> []
      | Some d \<Rightarrow>
          (case demand_events d of
             None \<Rightarrow> []
           | Some s \<Rightarrow> if s = [] then [] else split_on 59 s))"

text \<open>The test of one part in the loop: it matches the pattern and its dates hold the
  check-in date.\<close>

definition event_holds :: "runtime \<Rightarrow> jstring \<Rightarrow> jstring \<Rightarrow> bool" where
  "event_holds rt ci eventStr =
     (case match_event eventStr of
        None \<Rightarrow> False
      | Some (name, start, finish) \<Rightarrow> date_le rt start ci \<and> date_le rt ci finish)"

text \<open>The loop over the parts, with its \<open>break\<close>: \<open>(eventActive, eventName)\<close>.\<close>

fun scan_events :: "runtime \<Rightarrow> jstring \<Rightarrow> jstring list \<Rightarrow> bool \<times> jstring option" where
  "scan_events rt ci [] = (False, None)"
| "scan_events rt ci (eventStr # rest) =
     (case match_event eventStr of
        None \<Rightarrow> scan_events rt ci rest
      | Some (name, start, finish) \<Rightarrow>
          if date_le rt start ci \<and> date_le rt ci finish then (True, Some (trim name))
          else scan_events rt ci rest)"

text \<open>The trimmed name of a part that matches the pattern.\<close>

definition event_label :: "jstring \<Rightarrow> jstring option" where
  "event_label part =
     (case match_event part of
        None \<Rightarrow> None
      | Some (name, start, finish) \<Rightarrow> Some (trim name))"

definition demandMultiplier :: "bool \<Rightarrow> bool \<Rightarrow> real" where
  "demandMultiplier isPeak active =
     (let m0 = 1;
          m1 = (if isPeak then m0 + 2 / 10 else m0);
          m2 = (if active then m1 + 3 / 10 else m1)
      in m2)"

text \<open>The four values the handler derives from the demand row and the check-in date.\<close>

record demand =
  peak :: bool
  eventActive :: bool
  eventName :: "jstring option"
  multiplier :: real

definition binary_demand :: "runtime \<Rightarrow> city_demand_row option \<Rightarrow> jstring \<Rightarrow> demand" where
  "binary_demand rt cityDemand ci =
     (let scanned = scan_events rt ci (eventParts cityDemand)
      in \<lparr>peak = isPeakMonth rt cityDemand ci,
          eventActive = fst scanned,
          eventName = snd scanned,
          multiplier = demandMultiplier (isPeakMonth rt cityDemand ci) (fst scanned)\<rparr>)"

text \<open>\<open>a || b\<close> on numbers.\<close>

definition num_or :: "real \<Rightarrow> real \<Rightarrow> real" where
  "num_or a b = (if a = 0 then b else a)"

definition base_prices :: "city_stats_row option \<Rightarrow> hotel_row \<Rightarrow> city_prices" where
  "base_prices cityStats h =
     \<lparr>min_price = num_or (case cityStats of None \<Rightarrow> 0 | Some s \<Rightarrow> stats_min_price s)
                         (row_price_per_night h * (8 / 10)),
      avg_price = num_or (case cityStats of None \<Rightarrow> 0 | Some s \<Rightarrow> stats_avg_price s)
                         (row_price_per_night h),
      max_price = num_or (case cityStats of None \<Rightarrow> 0 | Some s \<Rightarrow> stats_max_price s)
                         (row_price_per_night h * (15 / 10))\<rparr>"

text \<open>Lines 341 to 343: each component is rounded on its own.\<close>

definition adjusted_prices :: "city_prices \<Rightarrow> real \<Rightarrow> city_prices" where
  "adjusted_prices base m =
     \<lparr>min_price = Math_round (min_price base * m),
      avg_price = Math_round (avg_price base * m),
      max_price = Math_round (max_price base * m)\<rparr>"

definition stay_nights :: "runtime \<Rightarrow> jstring \<Rightarrow> jstring \<Rightarrow> real option" where
  "stay_nights rt ci co =
     (case Date_getTime rt co of
        None \<Rightarrow> None
      | Some t_out \<Rightarrow>
          (case Date_getTime rt ci of
             None \<Rightarrow> None
           | Some t_in \<Rightarrow> Some (of_int \<lceil>(of_int (t_out - t_in) :: real) / 86400000\<rceil>)))"

text \<open>A missing hotel row is \<open>null\<close>, and the first read of one of its properties
  throws a \<open>TypeError\<close>: at the base prices when a city statistic is missing or 0,
  else at the payload.\<close>

definition null_hotel_error :: "city_stats_row option \<Rightarrow> error" where
  "null_hotel_error cityStats =
     (let complete = (case cityStats of
                        None \<Rightarrow> False
                      | Some s \<Rightarrow> stats_min_price s \<noteq> 0 \<and> stats_avg_price s \<noteq> 0
                                  \<and> stats_max_price s \<noteq> 0)
      in Error (str ''Cannot read properties of null (reading '' @ [39]
                @ (if complete then str ''hotel_name'' else str ''price_per_night'')
                @ [39] @ str '')''))"

definition null_if_zero :: "real option \<Rightarrow> real option" where
  "null_if_zero b = (case b of None \<Rightarrow> None | Some x \<Rightarrow> if x = 0 then None else Some x)"

definition build_payload ::
  "hotel_row \<Rightarrow> city_prices \<Rightarrow> city_prices \<Rightarrow> stay_request \<Rightarrow> real option
   \<Rightarrow> city_demand_row option \<Rightarrow> bool \<Rightarrow> bool \<Rightarrow> jstring option \<Rightarrow> payload" where
  "build_payload h base adj q n cityDemand isPeak active name =
     \<lparr>hotel = \<lparr>hotel_name = row_hotel_name h, city = row_city h,
                rating = (case row_rating h of None \<Rightarrow> 0 | Some r \<Rightarrow> r),
                reviews = (case number_of_reviews h of None \<Rightarrow> 0 | Some r \<Rightarrow> r)\<rparr>,
      base_city_prices = base,
      price_per_night = row_price_per_night h,
      stay = \<lparr>check_in = req_check_in q, check_out = req_check_out q, nights = n,
               guests = req_guests q\<rparr>,
      demand_context =
        \<lparr>is_peak_month = isPeak,
         peak_months = (case cityDemand of
                          None \<Rightarrow> []
                        | Some d \<Rightarrow> (case demand_peak_months d of None \<Rightarrow> [] | Some s \<Rightarrow> s)),
         event_active = active,
         event_name = name\<rparr>,
      user_budget = \<lparr>budget_min = null_if_zero (req_budget_min q),
                      budget_max = null_if_zero (req_budget_max q)\<rparr>,
      calculated_range = \<lparr>range_min = min_price adj, range_max = max_price adj\<rparr>\<rparr>"

definition name_json :: "jstring option \<Rightarrow> json" where
  "name_json n = (case n of None \<Rightarrow> JNull | Some s \<Rightarrow> JStr s)"

text \<open>The object stored in the column \<open>gemini_response\<close>: the recommendation spread,
  then the four properties of the context.\<close>

definition stored_response :: "json \<Rightarrow> demand \<Rightarrow> json" where
  "stored_response ai d =
     JObj (set_prop (set_prop (set_prop (set_prop (props ai)
        (str ''is_peak_month'') (JBool (peak d)))
        (str ''event_active'') (JBool (eventActive d)))
        (str ''event_name'') (name_json (eventName d)))
        (str ''demand_multiplier'') (JNum (multiplier d)))"

definition fresh_response :: "city_prices \<Rightarrow> city_prices \<Rightarrow> json \<Rightarrow> demand \<Rightarrow> json" where
  "fresh_response base adj ai d =
     JObj
       [(str ''cached'', JBool False),
        (str ''base_city_prices'', JObj
           [(str ''min'', JNum (min_price base)),
            (str ''avg'', JNum (avg_price base)),
            (str ''max'', JNum (max_price base))]),
        (str ''adjusted_prices'', JObj
           [(str ''min'', JNum (min_price adj)),
            (str ''avg'', JNum (avg_price adj)),
            (str ''max'', JNum (max_price adj)),
            (str ''multiplier'', JNum (multiplier d))]),
        (str ''ai_recommendation'', ai),
        (str ''demand_context'', JObj
           [(str ''is_peak_month'', JBool (peak d)),
            (str ''event_active'', JBool (eventActive d)),
            (str ''event_name'', name_json (eventName d)),
            (str ''demand_multiplier'', JNum (multiplier d))])]"

text \<open>The three rows fetched after a cache miss.\<close>

definition hotel_of :: "world \<Rightarrow> stay_request \<Rightarrow> hotel_row option" where
  "hotel_of w q = single (filter (\<lambda>h. row_id h = hotel_id q) (hotels_india w))"

definition cityStats_of :: "world \<Rightarrow> stay_request \<Rightarrow> city_stats_row option" where
  "cityStats_of w q = single (filter (\<lambda>s. stats_city s = req_city q) (city_price_stats w))"

definition cityDemand_of :: "world \<Rightarrow> stay_request \<Rightarrow> city_demand_row option" where
  "cityDemand_of w q = single (filter (\<lambda>d. demand_city d = req_city q) (city_demand w))"

text \<open>The values computed from them: the demand context, the base and the adjusted
  prices, the payload, and the row that is inserted.\<close>

definition stay_demand :: "runtime \<Rightarrow> world \<Rightarrow> stay_request \<Rightarrow> demand" where
  "stay_demand rt w q = binary_demand rt (cityDemand_of w q) (req_check_in q)"

definition stay_base :: "world \<Rightarrow> stay_request \<Rightarrow> hotel_row \<Rightarrow> city_prices" where
  "stay_base w q h = base_prices (cityStats_of w q) h"

definition stay_adjusted :: "runtime \<Rightarrow> world \<Rightarrow> stay_request \<Rightarrow> hotel_row \<Rightarrow> city_prices" where
  "stay_adjusted rt w q h = adjusted_prices (stay_base w q h) (multiplier (stay_demand rt w q))"

definition stay_payload :: "runtime \<Rightarrow> world \<Rightarrow> stay_request \<Rightarrow> hotel_row \<Rightarrow> payload" where
  "stay_payload rt w q h =
     build_payload h (stay_base w q h) (stay_adjusted rt w q h) q
       (stay_nights rt (req_check_in q) (req_check_out q)) (cityDemand_of w q)
       (peak (stay_demand rt w q)) (eventActive (stay_demand rt w q))
       (eventName (stay_demand rt w q))"

definition new_prediction ::
  "runtime \<Rightarrow> world \<Rightarrow> stay_request \<Rightarrow> hotel_row \<Rightarrow> json \<Rightarrow> prediction" where
  "new_prediction rt w q h aiRecommendation =
     \<lparr>pred_hotel_id = hotel_id q, pred_city = req_city q,
      pred_check_in = req_check_in q, pred_check_out = req_check_out q,
      pred_nights = stay_nights rt (req_check_in q) (req_check_out q),
      calculated_min = min_price (stay_adjusted rt w q h),
      calculated_max = max_price (stay_adjusted rt w q h),
      gemini_response = stored_response aiRecommendation (stay_demand rt w q),
      created_at = insert_at w\<rparr>"

text \<open>The path after a cache miss: the body of the response and the table after the
  insert, or the error thrown. Nothing throws after the insert, and the insert is taken
  to succeed: the code does not look at its result.\<close>

definition fresh :: "runtime \<Rightarrow> world \<Rightarrow> stay_request \<Rightarrow> error + (json \<times> prediction list)" where
  "fresh rt w q =
     (case hotel_of w q of
        None \<Rightarrow> Inl (null_hotel_error (cityStats_of w q))
      | Some h \<Rightarrow>
          (case GEMINI_API_KEY w of
             None \<Rightarrow> Inl (Error (str ''Gemini API key not configured''))
           | Some geminiApiKey \<Rightarrow>
               if geminiApiKey = [] then Inl (Error (str ''Gemini API key not configured''))
               else (case getPriceInsightFromGemini rt (stay_payload rt w q h) (gemini w) of
                       Inl e \<Rightarrow> Inl e
                     | Inr aiRecommendation \<Rightarrow>
                         Inr (fresh_response (stay_base w q h) (stay_adjusted rt w q h)
                                aiRecommendation (stay_demand rt w q),
                              price_predictions w @ [new_prediction rt w q h aiRecommendation]))))"

text \<open>The \<open>try\<close> of the handler.\<close>

definition attempt :: "runtime \<Rightarrow> world \<Rightarrow> request \<Rightarrow> error + (json \<times> prediction list)" where
  "attempt rt w req =
     (case req_json req of
        Inl m \<Rightarrow> Inl (Error m)
      | Inr q \<Rightarrow>
          (case cachedPrediction w q of
             Some c \<Rightarrow> Inr (cached_response c, price_predictions w)
           | None \<Rightarrow> fresh rt w q))"

text \<open>The \<open>catch\<close> of the handler; \<open>marked\<close> is its test
  \<open>error.message.startsWith('RATE_LIMIT:')\<close>.\<close>

definition marked :: "jstring \<Rightarrow> bool" where
  "marked m = starts_with (str ''RATE_LIMIT:'') m"

definition error_response :: "world \<Rightarrow> error \<Rightarrow> response" where
  "error_response w e =
     (let rate_limited = marked (message e);
          errorMessage = (if rate_limited then replace_first (str ''RATE_LIMIT: '') [] (message e)
                          else message e);
          statusCode = (if rate_limited then 429 else 500)
      in \<lparr>res_status = statusCode,
          res_body = Some (JObj [(str ''error'', JStr errorMessage),
                             (str ''code'', JNum (of_nat statusCode)),
                             (str ''timestamp'', JStr (error_time w))])\<rparr>)"

text \<open>The handler: the response and the table \<open>price_predictions\<close> afterwards.\<close>

definition serve :: "runtime \<Rightarrow> world \<Rightarrow> request \<Rightarrow> response \<times> prediction list" where
  "serve rt w req =
     (if req_method req = str ''OPTIONS''
      then (\<lparr>res_status = 200, res_body = None\<rparr>, price_predictions w)
      else (case attempt rt w req of
              Inr (b, table) \<Rightarrow> (\<lparr>res_status = 200, res_body = Some b\<rparr>, table)
            | Inl e \<Rightarrow> (error_response w e, price_predictions w)))"

text \<open>The handler reaches the call of the AI provider: no cached row, the hotel row
  found, the key configured.\<close>

definition provider_called :: "world \<Rightarrow> stay_request \<Rightarrow> bool" where
  "provider_called w q =
     (cachedPrediction w q = None
      \<and> hotel_of w q \<noteq> None
      \<and> GEMINI_API_KEY w \<noteq> None \<and> GEMINI_API_KEY w \<noteq> Some [])"

text \<open>Reading a nested property of a response body.\<close>

fun get_path :: "json \<Rightarrow> jstring list \<Rightarrow> json option" where
  "get_path j [] = Some j"
| "get_path j (k # ks) = (case get_prop j k of None \<Rightarrow> None | Some v \<Rightarrow> get_path v ks)"

definition body_path :: "response \<Rightarrow> jstring list \<Rightarrow> json option" where
  "body_path r ks = (case res_body r of None \<Rightarrow> None | Some b \<Rightarrow> get_path b ks)"

section \<open>The weighted score (demand.ts)\<close>

datatype impact = Low | Medium | High | Very_high

record event_info =
  ev_name :: jstring
  ev_start :: jstring
  ev_end :: jstring
  ev_impact :: impact

record demand_score_context =
  ctx_is_peak_month :: bool
  ctx_peak_months :: "jstring option"
  ctx_events :: "event_info list"
  demand_score :: real

definition getEventImpact :: "runtime \<Rightarrow> jstring \<Rightarrow> impact" where
  "getEventImpact rt event_text =
     (let name = toLowerCase rt event_text
      in if includes_str name (str ''kumbh'') \<or> includes_str name (str ''diwali'')
            \<or> includes_str name (str ''new year'') then Very_high
         else if includes_str name (str ''wedding'') \<or> includes_str name (str ''durga puja'')
            \<or> includes_str name (str ''navratri'') then High
         else if includes_str name (str ''festival'') \<or> includes_str name (str ''jayanti'')
            \<or> includes_str name (str ''puja'') then Medium
         else Low)"

definition parse_event :: "runtime \<Rightarrow> jstring \<Rightarrow> event_info list" where
  "parse_event rt eventStr =
     (case match_event eventStr of
        None \<Rightarrow> []
      | Some (name, start, finish) \<Rightarrow>
          [\<lparr>ev_name = trim name, ev_start = start, ev_end = finish,
            ev_impact = getEventImpact rt (trim name)\<rparr>])"

definition parseEvents :: "runtime \<Rightarrow> jstring option \<Rightarrow> event_info list" where
  "parseEvents rt eventsStr =
     (case eventsStr of
        None \<Rightarrow> []
      | Some s \<Rightarrow>
          if s = [] then []
          else concat (map (parse_event rt) (map trim (split_on 59 s))))"

definition getMonthNumber :: "runtime \<Rightarrow> jstring \<Rightarrow> int option" where
  "getMonthNumber rt date = map_option (\<lambda>m. m + 1) (Date_getMonth rt date)"

definition isDateInRange :: "runtime \<Rightarrow> jstring \<Rightarrow> jstring \<Rightarrow> jstring \<Rightarrow> bool" where
  "isDateInRange rt date start finish = (date_le rt start date \<and> date_le rt date finish)"

definition overlaps :: "runtime \<Rightarrow> jstring \<Rightarrow> jstring \<Rightarrow> event_info \<Rightarrow> bool" where
  "overlaps rt checkIn checkOut event =
     (isDateInRange rt checkIn (ev_start event) (ev_end event)
      \<or> isDateInRange rt checkOut (ev_start event) (ev_end event)
      \<or> (date_le rt checkIn (ev_start event) \<and> date_le rt (ev_end event) checkOut))"

text \<open>The table of the weights; each literal is the double nearest to it.\<close>

definition impactScore :: "impact \<Rightarrow> real" where
  "impactScore i =
     (case i of
        Low \<Rightarrow> double (1 / 10)
      | Medium \<Rightarrow> double (2 / 10)
      | High \<Rightarrow> double (3 / 10)
      | Very_high \<Rightarrow> double (4 / 10))"

text \<open>The peak months as \<open>calculateDemandContext\<close> reads them: a missing or empty text
  gives no month.\<close>

definition peak_text :: "city_demand_row option \<Rightarrow> jstring option" where
  "peak_text cityDemand =
     (case cityDemand of
        None \<Rightarrow> None
      | Some d \<Rightarrow>
          (case demand_peak_months d of
             None \<Rightarrow> None
           | Some s \<Rightarrow> if s = [] then None else Some s))"

definition peak_numbers :: "city_demand_row option \<Rightarrow> int option list" where
  "peak_numbers cityDemand =
     (case peak_text cityDemand of
        None \<Rightarrow> []
      | Some s \<Rightarrow> map (\<lambda>m. parseInt (trim m)) (split_on 44 s))"

definition calculateDemandContext ::
  "runtime \<Rightarrow> city_demand_row option \<Rightarrow> jstring \<Rightarrow> jstring \<Rightarrow> demand_score_context" where
  "calculateDemandContext rt cityDemand checkIn checkOut =
     (let isPeak = (getMonthNumber rt checkIn \<in> set (peak_numbers cityDemand));
          allEvents = parseEvents rt (case cityDemand of None \<Rightarrow> None | Some d \<Rightarrow> demand_events d);
          overlappingEvents = filter (overlaps rt checkIn checkOut) allEvents;
          score0 = (if isPeak then double (0 + double (3 / 10)) else 0);
          score1 = foldl (\<lambda>score event. double (score + impactScore (ev_impact event))) score0
                     overlappingEvents
      in \<lparr>ctx_is_peak_month = isPeak,
          ctx_peak_months = peak_text cityDemand,
          ctx_events = overlappingEvents,
          demand_score = min score1 1\<rparr>)"

definition calculatePriceRange :: "real \<Rightarrow> real \<Rightarrow> real \<Rightarrow> price_range" where
  "calculatePriceRange baseMin baseMax demandScore =
     (let factor = double (1 + double (demandScore * double (5 / 10)))
      in \<lparr>range_min = Math_round (double (baseMin * factor)),
          range_max = Math_round (double (baseMax * factor))\<rparr>)"

section \<open>A runtime for the examples\<close>

text \<open>
  The examples below run on this runtime. Its \<open>Date\<close> reads the date-only ISO form
  \<open>YYYY-MM-DD\<close> of a real calendar day as midnight UTC and takes the month in UTC;
  any other text is an invalid date. Its \<open>toLowerCase\<close> maps the letters A to Z. Its
  \<open>JSON.parse\<close> is a table of the texts that parse, with their values, and rejects
  every other text.
\<close>

definition is_leap :: "int \<Rightarrow> bool" where
  "is_leap y = (if y mod 400 = 0 then True else if y mod 100 = 0 then False else y mod 4 = 0)"

definition days_in_month :: "int \<Rightarrow> int \<Rightarrow> int" where
  "days_in_month y m =
     (if m = 2 then (if is_leap y then 29 else 28)
      else if m \<in> {4, 6, 9, 11} then 30 else 31)"

definition days_before_year :: "int \<Rightarrow> int" where
  "days_before_year y = 365 * y + (y + 3) div 4 - (y + 99) div 100 + (y + 399) div 400"

definition days_before_month :: "int \<Rightarrow> int \<Rightarrow> int" where
  "days_before_month y m =
     [0, 31, 59, 90, 120, 151, 181, 212, 243, 273, 304, 334] ! nat (m - 1)
     + (if 2 < m \<and> is_leap y then 1 else 0)"

definition digits_value :: "jstring \<Rightarrow> int" where
  "digits_value ds = int (foldl (\<lambda>acc c. acc * 10 + (c - 48)) 0 ds)"

definition iso_date :: "jstring \<Rightarrow> (int \<times> int \<times> int) option" where
  "iso_date s =
     (case match_date s of
        None \<Rightarrow> None
      | Some (d, rest) \<Rightarrow>
          (let y = digits_value (take 4 d);
               m = digits_value (take 2 (drop 5 d));
               day = digits_value (take 2 (drop 8 d))
           in if rest = [] \<and> 1 \<le> m \<and> m \<le> 12 \<and> 1 \<le> day \<and> day \<le> days_in_month y m
              then Some (y, m, day) else None))"

definition iso_getTime :: "jstring \<Rightarrow> int option" where
  "iso_getTime s =
     (case iso_date s of
        None \<Rightarrow> None
      | Some (y, m, day) \<Rightarrow>
          Some (86400000 * (days_before_year y + days_before_month y m + day
                            - (days_before_year 1970 + 1))))"

definition iso_getMonth :: "jstring \<Rightarrow> int option" where
  "iso_getMonth s = (case iso_date s of None \<Rightarrow> None | Some (y, m, day) \<Rightarrow> Some (m - 1))"

definition ascii_lower :: "nat \<Rightarrow> nat" where
  "ascii_lower c = (if 65 \<le> c \<and> c \<le> 90 then c + 32 else c)"

definition table_parse :: "(jstring \<times> json) list \<Rightarrow> jstring \<Rightarrow> jstring + json" where
  "table_parse table s =
     (case map_of table s of Some v \<Rightarrow> Inr v | None \<Rightarrow> Inl (str ''Unexpected token''))"

definition example_runtime :: "(jstring \<times> json) list \<Rightarrow> runtime" where
  "example_runtime table =
     \<lparr>JSON_parse = table_parse table, Date_getTime = iso_getTime,
      Date_getMonth = iso_getMonth, toLowerCase = map ascii_lower\<rparr>"

section \<open>Example data\<close>

definition example_payload :: "real \<Rightarrow> real \<Rightarrow> payload" where
  "example_payload lo hi =
     \<lparr>hotel = \<lparr>hotel_name = str ''Lake View'', city = str ''Udaipur'', rating = 4, reviews = 120\<rparr>,
      base_city_prices = \<lparr>min_price = 4000, avg_price = 5000, max_price = 7500\<rparr>,
      price_per_night = 5200,
      stay = \<lparr>check_in = str ''2024-11-02'', check_out = str ''2024-11-04'', nights = Some 2,
               guests = 2\<rparr>,
      demand_context = \<lparr>is_peak_month = False, peak_months = str ''10,11'', event_active = False,
                         event_name = None\<rparr>,
      user_budget = \<lparr>budget_min = None, budget_max = None\<rparr>,
      calculated_range = \<lparr>range_min = lo, range_max = hi\<rparr>\<rparr>"

definition example_events :: jstring where
  "example_events =
     str ''Diwali Festival (2024-11-01'' @ [8211] @ str ''2024-11-05);Jazz Night (2024-11-02''
     @ [8211] @ str ''2024-11-03)''"

definition example_demand :: city_demand_row where
  "example_demand =
     \<lparr>demand_city = str ''Udaipur'', demand_peak_months = Some (str ''10, 11''),
      demand_events = Some example_events\<rparr>"

definition diwali :: jstring where
  "diwali = str ''Diwali Festival (2024-11-01'' @ [8211] @ str ''2024-11-05)''"

definition jazz :: jstring where
  "jazz = str ''Jazz Night (2024-11-02'' @ [8211] @ str ''2024-11-03)''"

text \<open>Replies of the AI provider: a recommendation whose range is inverted, a good one,
  one with a confidence above 1, and the good one inside prose.\<close>

definition inverted_text :: jstring where
  \<open>inverted_text =
     str ''{"recommended_min_price":5000,"recommended_max_price":3000,"fairness_label":"fair",''
     @ str ''"confidence_score":0.5,"explanation":"Stable demand."}''\<close>

definition inverted_value :: json where
  "inverted_value = JObj
     [(str ''recommended_min_price'', JNum 5000),
      (str ''recommended_max_price'', JNum 3000),
      (str ''fairness_label'', JStr (str ''fair'')),
      (str ''confidence_score'', JNum (5 / 10)),
      (str ''explanation'', JStr (str ''Stable demand.''))]"

definition good_fields :: jstring where
  \<open>good_fields =
     str ''"recommended_min_price":6100,"recommended_max_price":10900,"fairness_label":"expensive",''
     @ str ''"confidence_score":0.82,"explanation":"Peak season and Diwali raise prices."''\<close>

definition good_text :: jstring where
  "good_text = str ''{'' @ good_fields @ str ''}''"

definition festival_payload :: payload where
  "festival_payload =
     (example_payload 6000 11250)
       \<lparr>demand_context := \<lparr>is_peak_month = True, peak_months = str ''10, 11'',
                             event_active = True, event_name = Some (str ''Diwali Festival'')\<rparr>\<rparr>"

definition good_value :: json where
  "good_value = JObj
     [(str ''recommended_min_price'', JNum 6100),
      (str ''recommended_max_price'', JNum 10900),
      (str ''fairness_label'', JStr (str ''expensive'')),
      (str ''confidence_score'', JNum (82 / 100)),
      (str ''explanation'', JStr (str ''Peak season and Diwali raise prices.''))]"

definition bad_text :: jstring where
  \<open>bad_text =
     str ''{"recommended_min_price":6100,"recommended_max_price":10900,"fairness_label":"fair",''
     @ str ''"confidence_score":1.5,"explanation":"Very sure."}''\<close>

definition bad_value :: json where
  "bad_value = JObj
     [(str ''recommended_min_price'', JNum 6100),
      (str ''recommended_max_price'', JNum 10900),
      (str ''fairness_label'', JStr (str ''fair'')),
      (str ''confidence_score'', JNum (15 / 10)),
      (str ''explanation'', JStr (str ''Very sure.''))]"

definition braced_reply :: jstring where
  "braced_reply = str ''Sure: '' @ good_text @ str '' (see {schema})''"

definition wrapped_reply :: jstring where
  "wrapped_reply = str ''Here is the recommendation: '' @ good_text @ str '' Let me know.''"

text \<open>A world for the examples: one hotel, the statistics of its city, the demand row
  with the two events, an empty table of predictions.\<close>

definition example_hotel :: hotel_row where
  "example_hotel =
     \<lparr>row_id = 7, row_hotel_name = str ''Lake View'', row_city = str ''Udaipur'',
      row_rating = Some 4, number_of_reviews = Some 120, row_price_per_night = 5200\<rparr>"

definition example_stats :: city_stats_row where
  "example_stats =
     \<lparr>stats_city = str ''Udaipur'', stats_min_price = 4000, stats_avg_price = 5000,
      stats_max_price = 7500\<rparr>"

definition example_stay :: stay_request where
  "example_stay =
     \<lparr>hotel_id = 7, req_city = str ''Udaipur'', req_check_in = str ''2024-11-02'',
      req_check_out = str ''2024-11-04'', req_guests = 2, req_budget_min = None,
      req_budget_max = None\<rparr>"

definition example_request :: request where
  "example_request = \<lparr>req_method = str ''POST'', req_json = Inr example_stay\<rparr>"

definition example_world :: world where
  "example_world =
     \<lparr>now = 1730000000000, price_predictions = [], hotels_india = [example_hotel],
      city_price_stats = [example_stats], city_demand = [example_demand],
      GEMINI_API_KEY = Some (str ''secret''), gemini = Responded 200 [] (Inr None),
      insert_at = 1730000002000, error_time = str ''2024-10-27T03:33:22.000Z''\<rparr>"

text \<open>A demand row whose one event has a blank name, and the world of a second,
  identical request one minute after the first.\<close>

definition blank_event :: jstring where
  "blank_event = str '' (2024-11-01'' @ [8211] @ str ''2024-11-05)''"

definition blank_demand :: city_demand_row where
  "blank_demand =
     \<lparr>demand_city = str ''Udaipur'', demand_peak_months = Some (str ''10, 11''),
      demand_events = Some blank_event\<rparr>"

definition blank_world :: world where
  "blank_world = example_world\<lparr>city_demand := [blank_demand]\<rparr>"

definition blank_world_later :: world where
  "blank_world_later =
     blank_world\<lparr>now := 1730000060000,
                  price_predictions := snd (serve (example_runtime []) blank_world example_request)\<rparr>"

text \<open>A demand row whose events and peak month together pass the cap.\<close>

definition wedding :: jstring where
  "wedding = str ''New Year Wedding (2024-11-03'' @ [8211] @ str ''2024-11-08)''"

definition crowded_demand :: city_demand_row where
  "crowded_demand =
     \<lparr>demand_city = str ''Udaipur'', demand_peak_months = Some (str ''10, 11''),
      demand_events = Some (diwali @ str ''; '' @ wedding)\<rparr>"

text \<open>A demand row for a stay in December: two events that the stay touches, one in
  January, and one whose dates are separated by a hyphen-minus instead of the en dash.
  The second part begins with a space.\<close>

definition durga :: jstring where
  "durga = str ''Durga Puja (2024-12-04'' @ [8211] @ str ''2024-12-06)''"

definition ganesh :: jstring where
  "ganesh = str '' Ganesh Jayanti (2024-12-05'' @ [8211] @ str ''2024-12-07)''"

definition kumbh :: jstring where
  "kumbh = str ''Kumbh Mela (2025-01-10'' @ [8211] @ str ''2025-01-20)''"

definition expo :: jstring where
  "expo = str ''Expo (2024-12-05-2024-12-09)''"

definition winter_demand :: city_demand_row where
  "winter_demand =
     \<lparr>demand_city = str ''Udaipur'', demand_peak_months = Some (str ''10, 11''),
      demand_events = Some (durga @ [59] @ ganesh @ [59] @ kumbh @ [59] @ expo)\<rparr>"

text \<open>A demand row whose peak months are not numbers.\<close>

definition named_months_demand :: city_demand_row where
  "named_months_demand =
     \<lparr>demand_city = str ''Udaipur'', demand_peak_months = Some (str ''Oct, Nov''),
      demand_events = None\<rparr>"

section \<open>Properties\<close>

lemma Math_round_mono: "x \<le> y \<Longrightarrow> Math_round x \<le> Math_round y"
  by (simp add: Math_round_def floor_mono)

subsection \<open>Reading the fallback recommendation\<close>

lemma fallback_min:
  "get_prop (fallback p) (str ''recommended_min_price'')
   = Some (JNum (Math_round (range_min (calculated_range p))))"
  by (simp add: fallback_def str_def)

lemma fallback_max:
  "get_prop (fallback p) (str ''recommended_max_price'')
   = Some (JNum (Math_round (range_max (calculated_range p))))"
  by (simp add: fallback_def str_def)

lemma fallback_label:
  "get_prop (fallback p) (str ''fairness_label'') = Some (JStr (fairness p))"
  by (simp add: fallback_def str_def)

lemma fallback_confidence:
  "get_prop (fallback p) (str ''confidence_score'') = Some (JNum (6 / 10))"
  by (simp add: fallback_def str_def)

lemma fallback_explanation:
  "get_prop (fallback p) (str ''explanation'') = Some (JStr (explanation p))"
  by (simp add: fallback_def str_def)

subsection \<open>Adjusted prices\<close>

text \<open>
  C9. For a multiplier of at least 1 and base prices with min \<open>\<le>\<close> avg \<open>\<le>\<close> max, the
  adjusted prices, each rounded on its own, still satisfy min \<open>\<le>\<close> avg \<open>\<le>\<close> max.
\<close>

theorem adjusted_prices_ordered:
  assumes "1 \<le> m" and "min_price base \<le> avg_price base" and "avg_price base \<le> max_price base"
  shows "min_price (adjusted_prices base m) \<le> avg_price (adjusted_prices base m)
       \<and> avg_price (adjusted_prices base m) \<le> max_price (adjusted_prices base m)"
proof -
  from assms(1) have m: "0 \<le> m" by simp
  have "min_price base * m \<le> avg_price base * m"
    using assms(2) m by (rule mult_right_mono)
  moreover have "avg_price base * m \<le> max_price base * m"
    using assms(3) m by (rule mult_right_mono)
  ultimately show ?thesis
    by (simp add: adjusted_prices_def Math_round_mono)
qed

theorem adjusted_prices_ordered_witness:
  "(1 :: real) \<le> 12 / 10
   \<and> adjusted_prices \<lparr>min_price = 3333, avg_price = 3334, max_price = 3335\<rparr> (12 / 10)
       = \<lparr>min_price = 4000, avg_price = 4001, max_price = 4002\<rparr>
   \<and> min_price (adjusted_prices \<lparr>min_price = 3333, avg_price = 3334, max_price = 3335\<rparr> (12 / 10))
       \<le> avg_price (adjusted_prices \<lparr>min_price = 3333, avg_price = 3334, max_price = 3335\<rparr> (12 / 10))
   \<and> avg_price (adjusted_prices \<lparr>min_price = 3333, avg_price = 3334, max_price = 3335\<rparr> (12 / 10))
       \<le> max_price (adjusted_prices \<lparr>min_price = 3333, avg_price = 3334, max_price = 3335\<rparr> (12 / 10))"
  using adjusted_prices_ordered
    [of "12 / 10" "\<lparr>min_price = 3333, avg_price = 3334, max_price = 3335\<rparr>"]
  by (simp add: adjusted_prices_def Math_round_def)

subsection \<open>The fairness label of the fallback\<close>

text \<open>
  C8. In the fallback, with a city average that is not negative, a midpoint of the
  calculated range equal to 0.8 times the city average is labelled fair, and so is one
  equal to 1.3 times the city average; cheap needs a midpoint strictly below the first
  threshold and expensive one strictly above the second.
\<close>

theorem fallback_fairness_boundary:
  assumes "0 \<le> avg_price (base_city_prices p)"
  shows "((range_min (calculated_range p) + range_max (calculated_range p)) / 2
            = avg_price (base_city_prices p) * (8 / 10)
          \<longrightarrow> get_prop (fallback p) (str ''fairness_label'') = Some (JStr (str ''fair'')))
       \<and> ((range_min (calculated_range p) + range_max (calculated_range p)) / 2
            = avg_price (base_city_prices p) * (13 / 10)
          \<longrightarrow> get_prop (fallback p) (str ''fairness_label'') = Some (JStr (str ''fair'')))
       \<and> ((range_min (calculated_range p) + range_max (calculated_range p)) / 2
            < avg_price (base_city_prices p) * (8 / 10)
          \<longrightarrow> get_prop (fallback p) (str ''fairness_label'') = Some (JStr (str ''cheap'')))
       \<and> ((range_min (calculated_range p) + range_max (calculated_range p)) / 2
            > avg_price (base_city_prices p) * (13 / 10)
          \<longrightarrow> get_prop (fallback p) (str ''fairness_label'') = Some (JStr (str ''expensive'')))"
  using assms by (auto simp add: fallback_label fairness_def Let_def)

theorem fallback_fairness_boundary_witness:
  "0 \<le> avg_price (base_city_prices (example_payload 3000 5000))
   \<and> (range_min (calculated_range (example_payload 3000 5000))
        + range_max (calculated_range (example_payload 3000 5000))) / 2
       = avg_price (base_city_prices (example_payload 3000 5000)) * (8 / 10)
   \<and> get_prop (fallback (example_payload 3000 5000)) (str ''fairness_label'')
       = Some (JStr (str ''fair''))
   \<and> (range_min (calculated_range (example_payload 6000 7000))
        + range_max (calculated_range (example_payload 6000 7000))) / 2
       = avg_price (base_city_prices (example_payload 6000 7000)) * (13 / 10)
   \<and> get_prop (fallback (example_payload 6000 7000)) (str ''fairness_label'')
       = Some (JStr (str ''fair''))
   \<and> get_prop (fallback (example_payload 3000 4998)) (str ''fairness_label'')
       = Some (JStr (str ''cheap''))
   \<and> get_prop (fallback (example_payload 6000 7002)) (str ''fairness_label'')
       = Some (JStr (str ''expensive''))"
  using fallback_fairness_boundary [of "example_payload 3000 5000"]
    fallback_fairness_boundary [of "example_payload 6000 7000"]
    fallback_fairness_boundary [of "example_payload 3000 4998"]
    fallback_fairness_boundary [of "example_payload 6000 7002"]
  by (simp add: example_payload_def)

subsection \<open>The binary demand model\<close>

lemma scan_events_Cons:
  "scan_events rt ci (part # rest) =
     (if event_holds rt ci part then (True, event_label part) else scan_events rt ci rest)"
  by (auto simp add: event_holds_def event_label_def split: option.splits)

lemma scan_events_active:
  "fst (scan_events rt ci parts) = (\<exists>part \<in> set parts. event_holds rt ci part)"
  by (induction parts) (simp_all add: scan_events_Cons del: scan_events.simps(2))

lemma scan_events_first:
  assumes "\<forall>x \<in> set pre. \<not> event_holds rt ci x" and "event_holds rt ci part"
  shows "scan_events rt ci (pre @ part # post) = (True, event_label part)"
  using assms by (induction pre) (simp_all add: scan_events_Cons del: scan_events.simps(2))

lemma event_holds_iff:
  "event_holds rt ci part =
     (\<exists>name start finish t1 t t2.
        match_event part = Some (name, start, finish)
        \<and> Date_getTime rt start = Some t1 \<and> Date_getTime rt ci = Some t
        \<and> Date_getTime rt finish = Some t2 \<and> t1 \<le> t \<and> t \<le> t2)"
  by (auto simp add: event_holds_def date_le_def split: option.splits)

lemma demandMultiplier_eq:
  "demandMultiplier a b = 1 + (if a then 2 / 10 else 0) + (if b then 3 / 10 else 0)"
  by (simp add: demandMultiplier_def)

lemma checkInMonth_eq:
  "checkInMonth rt ci = x \<longleftrightarrow>
     (\<exists>m. Date_getMonth rt ci = Some m \<and> x = Some (m + 1))
     \<or> (Date_getMonth rt ci = None \<and> x = None)"
  by (cases "Date_getMonth rt ci") (auto simp add: checkInMonth_def)

lemma peak_iff:
  "peak (binary_demand rt cityDemand ci) \<longleftrightarrow>
     (\<exists>d s t. cityDemand = Some d \<and> demand_peak_months d = Some s \<and> t \<in> set (split_on 44 s)
        \<and> ((\<exists>m. Date_getMonth rt ci = Some m \<and> parseInt (trim t) = Some (m + 1))
           \<or> (Date_getMonth rt ci = None \<and> parseInt (trim t) = None)))"
proof (cases cityDemand)
  case None
  then show ?thesis
    by (simp add: binary_demand_def Let_def isPeakMonth_def peakMonths_def)
next
  case (Some d)
  show ?thesis
  proof (cases "demand_peak_months d")
    case None
    with Some show ?thesis
      by (simp add: binary_demand_def Let_def isPeakMonth_def peakMonths_def)
  next
    case inner: (Some s)
    have "peak (binary_demand rt cityDemand ci) \<longleftrightarrow>
        (\<exists>t \<in> set (split_on 44 s). checkInMonth rt ci = parseInt (trim t))"
      using Some inner
      by (auto simp add: binary_demand_def Let_def isPeakMonth_def peakMonths_def)
    then show ?thesis
      using Some inner by (simp add: checkInMonth_eq Bex_def)
  qed
qed

lemma eventParts_holds:
  "(\<exists>part \<in> set (eventParts cityDemand). event_holds rt ci part) \<longleftrightarrow>
     (\<exists>d s part. cityDemand = Some d \<and> demand_events d = Some s \<and> part \<in> set (split_on 59 s)
        \<and> event_holds rt ci part)"
proof (cases cityDemand)
  case None
  then show ?thesis by (simp add: eventParts_def)
next
  case (Some d)
  show ?thesis
  proof (cases "demand_events d")
    case None
    with Some show ?thesis by (simp add: eventParts_def)
  next
    case inner: (Some s)
    show ?thesis
    proof (cases "s = []")
      case True
      with Some inner show ?thesis by (simp add: eventParts_def event_holds_def)
    next
      case False
      with Some inner show ?thesis by (simp add: eventParts_def Bex_def)
    qed
  qed
qed

lemma eventActive_iff:
  "eventActive (binary_demand rt cityDemand ci) \<longleftrightarrow>
     (\<exists>d s part name start finish t1 t t2.
        cityDemand = Some d \<and> demand_events d = Some s \<and> part \<in> set (split_on 59 s)
        \<and> match_event part = Some (name, start, finish)
        \<and> Date_getTime rt start = Some t1 \<and> Date_getTime rt ci = Some t
        \<and> Date_getTime rt finish = Some t2 \<and> t1 \<le> t \<and> t \<le> t2)"
proof -
  have "eventActive (binary_demand rt cityDemand ci) \<longleftrightarrow>
      (\<exists>d s part. cityDemand = Some d \<and> demand_events d = Some s \<and> part \<in> set (split_on 59 s)
         \<and> event_holds rt ci part)"
    by (simp add: binary_demand_def Let_def scan_events_active eventParts_holds)
  then show ?thesis
    unfolding event_holds_iff by blast
qed

lemma multiplier_formula:
  "multiplier (binary_demand rt cityDemand ci)
     = 1 + (if peak (binary_demand rt cityDemand ci) then 2 / 10 else 0)
         + (if eventActive (binary_demand rt cityDemand ci) then 3 / 10 else 0)"
  by (simp add: binary_demand_def Let_def demandMultiplier_eq)

text \<open>
  C4. In the binary model the multiplier is 1, plus 0.20 when the check-in month is among
  the peak months, plus 0.30 when some event holds the check-in date; it is at most 1.50.
  The check-in month is \<open>getMonth() + 1\<close>, and it is among the peak months when the peak
  months text has a part, between commas, that \<open>parseInt\<close> reads (after \<open>trim\<close>) as that
  number. Where the check-in text is no date its month is \<open>NaN\<close>, and \<open>includes\<close> then finds it
  among the peak months exactly when some part of the text is no number. An event holds
  the check-in date when some part of the events text, between semicolons, matches the
  pattern and the time value of the check-in date lies between those of its two dates,
  both bounds included: a check-in on the first or on the last day of an event is inside
  it. Only the check-in date is compared; the check-out date is not an argument.
\<close>

theorem binary_multiplier:
  "multiplier (binary_demand rt cityDemand ci)
     = 1 + (if peak (binary_demand rt cityDemand ci) then 2 / 10 else 0)
         + (if eventActive (binary_demand rt cityDemand ci) then 3 / 10 else 0)
   \<and> multiplier (binary_demand rt cityDemand ci) \<le> 15 / 10
   \<and> (peak (binary_demand rt cityDemand ci) \<longleftrightarrow>
        (\<exists>d s t. cityDemand = Some d \<and> demand_peak_months d = Some s \<and> t \<in> set (split_on 44 s)
           \<and> ((\<exists>m. Date_getMonth rt ci = Some m \<and> parseInt (trim t) = Some (m + 1))
              \<or> (Date_getMonth rt ci = None \<and> parseInt (trim t) = None))))
   \<and> (eventActive (binary_demand rt cityDemand ci) \<longleftrightarrow>
        (\<exists>d s part name start finish t1 t t2.
           cityDemand = Some d \<and> demand_events d = Some s \<and> part \<in> set (split_on 59 s)
           \<and> match_event part = Some (name, start, finish)
           \<and> Date_getTime rt start = Some t1 \<and> Date_getTime rt ci = Some t
           \<and> Date_getTime rt finish = Some t2 \<and> t1 \<le> t \<and> t \<le> t2))
   \<and> (cityDemand = Some row \<and> demand_events row = Some events
        \<and> eventStr \<in> set (split_on 59 events)
        \<and> match_event eventStr = Some (name', start', finish')
        \<and> Date_getTime rt start' = Some a \<and> Date_getTime rt finish' = Some b \<and> a \<le> b
        \<and> (Date_getTime rt ci = Some a \<or> Date_getTime rt ci = Some b)
        \<longrightarrow> eventActive (binary_demand rt cityDemand ci)
            \<and> 13 / 10 \<le> multiplier (binary_demand rt cityDemand ci))"
proof -
  note formula = multiplier_formula [of rt cityDemand ci]
  have bound: "multiplier (binary_demand rt cityDemand ci) \<le> 15 / 10"
    unfolding formula by simp
  have boundary: "eventActive (binary_demand rt cityDemand ci)
      \<and> 13 / 10 \<le> multiplier (binary_demand rt cityDemand ci)"
    if h: "cityDemand = Some row \<and> demand_events row = Some events
        \<and> eventStr \<in> set (split_on 59 events)
        \<and> match_event eventStr = Some (name', start', finish')
        \<and> Date_getTime rt start' = Some a \<and> Date_getTime rt finish' = Some b \<and> a \<le> b
        \<and> (Date_getTime rt ci = Some a \<or> Date_getTime rt ci = Some b)"
  proof -
    from h have "\<exists>t. Date_getTime rt ci = Some t \<and> a \<le> t \<and> t \<le> b" by auto
    with h have active: "eventActive (binary_demand rt cityDemand ci)"
      unfolding eventActive_iff by blast
    then show ?thesis unfolding formula by simp
  qed
  then have boundary_imp:
    "cityDemand = Some row \<and> demand_events row = Some events
        \<and> eventStr \<in> set (split_on 59 events)
        \<and> match_event eventStr = Some (name', start', finish')
        \<and> Date_getTime rt start' = Some a \<and> Date_getTime rt finish' = Some b \<and> a \<le> b
        \<and> (Date_getTime rt ci = Some a \<or> Date_getTime rt ci = Some b)
        \<longrightarrow> eventActive (binary_demand rt cityDemand ci)
            \<and> 13 / 10 \<le> multiplier (binary_demand rt cityDemand ci)"
    by (rule impI)
  from formula bound peak_iff [of rt cityDemand ci] eventActive_iff [of rt cityDemand ci]
    boundary_imp
  show ?thesis by (intro conjI)
qed

text \<open>Evaluation of the example data.\<close>

lemmas pattern_defs = str_def match_dates_def is_digit_def is_white_space_def is_line_terminator_def

lemmas date_defs = example_runtime_def iso_getTime_def iso_getMonth_def iso_date_def str_def is_digit_def
  digits_value_def days_in_month_def is_leap_def days_before_year_def days_before_month_def

lemma ex_parts: "eventParts (Some example_demand) = [diwali, jazz]"
  by (simp add: eventParts_def example_demand_def example_events_def diwali_def jazz_def str_def)

lemma ex_diwali: "match_event diwali = Some (str ''Diwali Festival'', str ''2024-11-01'', str ''2024-11-05'')"
  by (simp add: diwali_def pattern_defs)

lemma ex_jazz: "match_event jazz = Some (str ''Jazz Night'', str ''2024-11-02'', str ''2024-11-03'')"
  by (simp add: jazz_def pattern_defs)

lemma ex_times:
  "Date_getTime (example_runtime tab) (str ''2024-11-01'') = Some 1730419200000"
  "Date_getTime (example_runtime tab) (str ''2024-11-02'') = Some 1730505600000"
  "Date_getTime (example_runtime tab) (str ''2024-11-03'') = Some 1730592000000"
  "Date_getTime (example_runtime tab) (str ''2024-11-05'') = Some 1730764800000"
  by (simp_all add: date_defs)

lemma ex_months:
  "Date_getMonth (example_runtime tab) (str ''2024-11-01'') = Some 10"
  "Date_getMonth (example_runtime tab) (str ''2024-11-02'') = Some 10"
  "Date_getMonth (example_runtime tab) (str ''2024-11-05'') = Some 10"
  by (simp_all add: date_defs)

lemma ex_peak: "peakMonths (Some example_demand) = [Some 10, Some 11]"
  by (simp add: peakMonths_def example_demand_def str_def trim_def is_white_space_def parseInt_def radix_digit_def Let_def)

lemma ex_trim: "trim (str ''Diwali Festival'') = str ''Diwali Festival''"
  by (simp add: trim_def str_def is_white_space_def)

lemma ex_split: "split_on 59 example_events = [diwali, jazz]"
  by (simp add: example_events_def diwali_def jazz_def str_def)

lemma ex_peak_split: "split_on 44 (str ''10, 11'') = [str ''10'', str '' 11'']"
  by (simp add: str_def)

lemma ex_peak_parsed:
  "parseInt (trim (str ''10'')) = Some 10"
  "parseInt (trim (str '' 11'')) = Some 11"
  by (simp_all add: str_def trim_def is_white_space_def parseInt_def radix_digit_def Let_def)

lemma winter_split:
  "split_on 59 (durga @ [59] @ ganesh @ [59] @ kumbh @ [59] @ expo) = [durga, ganesh, kumbh, expo]"
  by (simp add: durga_def ganesh_def kumbh_def expo_def str_def)

lemma winter_matches:
  "match_event durga = Some (str ''Durga Puja'', str ''2024-12-04'', str ''2024-12-06'')"
  "match_event ganesh = Some (str '' Ganesh Jayanti'', str ''2024-12-05'', str ''2024-12-07'')"
  "match_event kumbh = Some (str ''Kumbh Mela'', str ''2025-01-10'', str ''2025-01-20'')"
  "match_event expo = None"
  by (simp_all add: durga_def ganesh_def kumbh_def expo_def pattern_defs)

lemma winter_times:
  "Date_getTime (example_runtime tab) (str ''2024-12-04'') = Some 1733270400000"
  "Date_getTime (example_runtime tab) (str ''2024-12-05'') = Some 1733356800000"
  "Date_getTime (example_runtime tab) (str ''2024-12-06'') = Some 1733443200000"
  "Date_getTime (example_runtime tab) (str ''2024-12-07'') = Some 1733529600000"
  "Date_getTime (example_runtime tab) (str ''2024-12-09'') = Some 1733702400000"
  "Date_getTime (example_runtime tab) (str ''2025-01-10'') = Some 1736467200000"
  "Date_getTime (example_runtime tab) (str ''2025-01-20'') = Some 1737331200000"
  by (simp_all add: date_defs)

lemma winter_months:
  "Date_getMonth (example_runtime tab) (str ''2024-12-05'') = Some 11"
  "Date_getMonth (example_runtime tab) (str ''2024-12-07'') = Some 11"
  "Date_getMonth (example_runtime tab) (str ''2024-12-09'') = Some 11"
  by (simp_all add: date_defs)

lemma ex_time_late: "Date_getTime (example_runtime tab) (str ''2024-11-08'') = Some 1731024000000"
  by (simp add: date_defs)

lemma ex_month_late: "Date_getMonth (example_runtime tab) (str ''2024-11-08'') = Some 10"
  by (simp add: date_defs)

lemma ganesh_trim: "trim (str '' Ganesh Jayanti'') = str ''Ganesh Jayanti''"
  by (simp add: trim_def str_def is_white_space_def)

lemma soon_invalid:
  "Date_getMonth (example_runtime tab) (str ''soon'') = None"
  "Date_getTime (example_runtime tab) (str ''soon'') = None"
  by (simp_all add: date_defs)

lemma named_months:
  "split_on 44 (str ''Oct, Nov'') = [str ''Oct'', str '' Nov'']"
  "parseInt (trim (str ''Oct'')) = None"
  "parseInt (trim (str '' Nov'')) = None"
  by (simp_all add: str_def trim_def is_white_space_def parseInt_def radix_digit_def Let_def)

lemma october: "Date_getMonth (example_runtime tab) (str ''2024-10-05'') = Some 9"
  by (simp add: date_defs)

lemma winter_parts: "eventParts (Some winter_demand) = [durga, ganesh, kumbh, expo]"
proof -
  have "durga @ [59] @ ganesh @ [59] @ kumbh @ [59] @ expo \<noteq> []"
    by (simp add: durga_def str_def)
  with winter_split show ?thesis
    by (simp add: eventParts_def winter_demand_def)
qed

lemma winter_peak: "peakMonths (Some winter_demand) = [Some 10, Some 11]"
  by (simp add: peakMonths_def winter_demand_def ex_peak_split ex_peak_parsed)

lemma named_months_rows:
  "peakMonths (Some named_months_demand) = [None, None]"
  "eventParts (Some named_months_demand) = []"
  by (simp_all add: peakMonths_def eventParts_def named_months_demand_def named_months)

lemmas binary_defs = binary_demand_def Let_def isPeakMonth_def checkInMonth_def
  demandMultiplier_def date_le_def

theorem binary_multiplier_witness:
  "split_on 59 example_events = [diwali, jazz]
   \<and> match_event diwali = Some (str ''Diwali Festival'', str ''2024-11-01'', str ''2024-11-05'')
   \<and> Date_getTime (example_runtime []) (str ''2024-11-01'') = Some 1730419200000
   \<and> Date_getTime (example_runtime []) (str ''2024-11-05'') = Some 1730764800000
   \<and> Date_getMonth (example_runtime []) (str ''2024-11-05'') = Some 10
   \<and> map (\<lambda>t. parseInt (trim t)) (split_on 44 (str ''10, 11'')) = [Some 10, Some 11]
   \<and> binary_demand (example_runtime []) (Some example_demand) (str ''2024-11-05'')
       = \<lparr>peak = True, eventActive = True, eventName = Some (str ''Diwali Festival''),
          multiplier = 15 / 10\<rparr>
   \<and> binary_demand (example_runtime []) (Some example_demand) (str ''2024-11-08'')
       = \<lparr>peak = True, eventActive = False, eventName = None, multiplier = 12 / 10\<rparr>
   \<and> Date_getMonth (example_runtime []) (str ''2024-12-07'') = Some 11
   \<and> split_on 59 (durga @ [59] @ ganesh @ [59] @ kumbh @ [59] @ expo)
       = [durga, ganesh, kumbh, expo]
   \<and> match_event durga = Some (str ''Durga Puja'', str ''2024-12-04'', str ''2024-12-06'')
   \<and> match_event ganesh = Some (str '' Ganesh Jayanti'', str ''2024-12-05'', str ''2024-12-07'')
   \<and> binary_demand (example_runtime []) (Some winter_demand) (str ''2024-12-07'')
       = \<lparr>peak = False, eventActive = True, eventName = Some (str ''Ganesh Jayanti''),
          multiplier = 13 / 10\<rparr>
   \<and> match_event expo = None
   \<and> binary_demand (example_runtime []) (Some winter_demand) (str ''2024-12-09'')
       = \<lparr>peak = False, eventActive = False, eventName = None, multiplier = 1\<rparr>
   \<and> Date_getMonth (example_runtime []) (str ''soon'') = None
   \<and> parseInt (trim (str ''Oct'')) = None
   \<and> binary_demand (example_runtime []) (Some named_months_demand) (str ''soon'')
       = \<lparr>peak = True, eventActive = False, eventName = None, multiplier = 12 / 10\<rparr>
   \<and> binary_demand (example_runtime []) (Some named_months_demand) (str ''2024-10-05'')
       = \<lparr>peak = False, eventActive = False, eventName = None, multiplier = 1\<rparr>"
proof -
  let ?rt = "example_runtime []"
  note B = binary_multiplier [where rt = ?rt and cityDemand = "Some example_demand"
      and ci = "str ''2024-11-05''" and row = example_demand and events = example_events
      and eventStr = diwali and name' = "str ''Diwali Festival''"
      and start' = "str ''2024-11-01''" and finish' = "str ''2024-11-05''"
      and a = 1730419200000 and b = 1730764800000]
  have given: "Some example_demand = Some example_demand
      \<and> demand_events example_demand = Some example_events
      \<and> diwali \<in> set (split_on 59 example_events)
      \<and> match_event diwali
          = Some (str ''Diwali Festival'', str ''2024-11-01'', str ''2024-11-05'')
      \<and> Date_getTime ?rt (str ''2024-11-01'') = Some 1730419200000
      \<and> Date_getTime ?rt (str ''2024-11-05'') = Some 1730764800000
      \<and> (1730419200000 :: int) \<le> 1730764800000
      \<and> (Date_getTime ?rt (str ''2024-11-05'') = Some 1730419200000
          \<or> Date_getTime ?rt (str ''2024-11-05'') = Some 1730764800000)"
    by (simp add: example_demand_def ex_split ex_diwali ex_times)
  have boundary: "eventActive (binary_demand ?rt (Some example_demand) (str ''2024-11-05''))
      \<and> 13 / 10 \<le> multiplier (binary_demand ?rt (Some example_demand) (str ''2024-11-05''))"
    using B [THEN conjunct2, THEN conjunct2, THEN conjunct2, THEN conjunct2] given
    by (rule mp)
  have end_day: "binary_demand ?rt (Some example_demand) (str ''2024-11-05'')
       = \<lparr>peak = True, eventActive = True, eventName = Some (str ''Diwali Festival''),
          multiplier = 15 / 10\<rparr>"
    using boundary
    by (simp add: binary_defs ex_parts ex_peak ex_months ex_diwali ex_times ex_trim)
  have after: "binary_demand ?rt (Some example_demand) (str ''2024-11-08'')
       = \<lparr>peak = True, eventActive = False, eventName = None, multiplier = 12 / 10\<rparr>"
    by (simp add: binary_defs ex_parts ex_peak ex_month_late ex_time_late ex_diwali ex_jazz
        ex_times)
  have peaks: "map (\<lambda>t. parseInt (trim t)) (split_on 44 (str ''10, 11'')) = [Some 10, Some 11]"
    by (simp add: ex_peak_split ex_peak_parsed)
  have second: "binary_demand ?rt (Some winter_demand) (str ''2024-12-07'')
       = \<lparr>peak = False, eventActive = True, eventName = Some (str ''Ganesh Jayanti''),
          multiplier = 13 / 10\<rparr>"
    by (simp add: binary_defs winter_parts winter_peak winter_months winter_matches
        winter_times ganesh_trim)
  have hyphen: "binary_demand ?rt (Some winter_demand) (str ''2024-12-09'')
       = \<lparr>peak = False, eventActive = False, eventName = None, multiplier = 1\<rparr>"
    by (simp add: binary_defs winter_parts winter_peak winter_months winter_matches
        winter_times)
  have invalid: "binary_demand ?rt (Some named_months_demand) (str ''soon'')
       = \<lparr>peak = True, eventActive = False, eventName = None, multiplier = 12 / 10\<rparr>"
    by (simp add: binary_defs named_months_rows soon_invalid)
  have valid: "binary_demand ?rt (Some named_months_demand) (str ''2024-10-05'')
       = \<lparr>peak = False, eventActive = False, eventName = None, multiplier = 1\<rparr>"
    by (simp add: binary_defs named_months_rows october)
  from ex_split ex_diwali ex_times(1) ex_times(4) ex_months(3) peaks end_day after
    winter_months(2) winter_split winter_matches(1) winter_matches(2) second winter_matches(4)
    hyphen soon_invalid(1) named_months(2) invalid valid
  show ?thesis by (intro conjI)
qed

text \<open>
  C10. When the first part of the events text whose dates hold the check-in date is
  \<open>part\<close>, the handler reports its trimmed name as the event name and adds 0.30 to the
  multiplier once, whatever the later parts are: more events holding the date add nothing.
\<close>

theorem first_event_wins:
  assumes "eventParts cityDemand = pre @ part # post"
    and "\<forall>x \<in> set pre. \<not> event_holds rt ci x"
    and "event_holds rt ci part"
    and "match_event part = Some (name, start, finish)"
  shows "eventName (binary_demand rt cityDemand ci) = Some (trim name)
       \<and> eventActive (binary_demand rt cityDemand ci)
       \<and> multiplier (binary_demand rt cityDemand ci)
           = (if peak (binary_demand rt cityDemand ci) then 12 / 10 else 1) + 3 / 10"
proof -
  have "scan_events rt ci (eventParts cityDemand) = (True, event_label part)"
    unfolding assms(1) using assms(2,3) by (rule scan_events_first)
  moreover have "event_label part = Some (trim name)"
    using assms(4) by (simp add: event_label_def)
  ultimately show ?thesis
    by (simp add: binary_demand_def Let_def demandMultiplier_def)
qed

theorem first_event_wins_witness:
  "eventParts (Some example_demand) = [] @ diwali # [jazz]
   \<and> event_holds (example_runtime []) (str ''2024-11-02'') diwali
   \<and> event_holds (example_runtime []) (str ''2024-11-02'') jazz
   \<and> match_event diwali = Some (str ''Diwali Festival'', str ''2024-11-01'', str ''2024-11-05'')
   \<and> eventName (binary_demand (example_runtime []) (Some example_demand) (str ''2024-11-02''))
       = Some (str ''Diwali Festival'')
   \<and> peak (binary_demand (example_runtime []) (Some example_demand) (str ''2024-11-02''))
   \<and> multiplier (binary_demand (example_runtime []) (Some example_demand) (str ''2024-11-02''))
       = 15 / 10"
proof -
  have holds: "event_holds (example_runtime []) (str ''2024-11-02'') diwali"
    "event_holds (example_runtime []) (str ''2024-11-02'') jazz"
    by (simp_all add: event_holds_def ex_diwali ex_jazz date_le_def ex_times)
  have pk: "peak (binary_demand (example_runtime []) (Some example_demand) (str ''2024-11-02''))"
    by (simp add: binary_demand_def Let_def isPeakMonth_def checkInMonth_def ex_months ex_peak)
  from first_event_wins [of "Some example_demand" "[]" diwali "[jazz]" "example_runtime []"
      "str ''2024-11-02''" "str ''Diwali Festival''" "str ''2024-11-01''" "str ''2024-11-05''"]
    holds pk ex_parts ex_diwali ex_trim
  show ?thesis by simp
qed

subsection \<open>The recommendation requester\<close>

lemma valid_fields:
  assumes "\<not> invalid_structure r"
  shows "(\<exists>a. get_prop r (str ''recommended_min_price'') = Some (JNum a))
       \<and> (\<exists>b. get_prop r (str ''recommended_max_price'') = Some (JNum b))
       \<and> (\<exists>l. get_prop r (str ''fairness_label'') = Some (JStr l)
                \<and> l \<in> {str ''cheap'', str ''fair'', str ''expensive''})
       \<and> (\<exists>c. get_prop r (str ''confidence_score'') = Some (JNum c) \<and> 0 \<le> c \<and> c \<le> 1)
       \<and> (\<exists>e. get_prop r (str ''explanation'') = Some e \<and> truthy e)"
  using assms
  by (auto simp add: invalid_structure_def is_number_def fairness_labels_def
      split: option.splits json.splits if_splits)

lemma fairness_cases: "fairness p \<in> {str ''cheap'', str ''fair'', str ''expensive''}"
  by (simp add: fairness_def Let_def)

lemma explanation_nonempty: "explanation p \<noteq> []"
  by (simp add: explanation_def str_def)

lemma fallback_valid: "\<not> invalid_structure (fallback p)"
  using fairness_cases [of p] explanation_nonempty [of p]
  by (auto simp add: invalid_structure_def is_number_def fairness_labels_def
      fallback_min fallback_max fallback_label fallback_confidence fallback_explanation)

lemma parse_response_valid: "parse_response rt content = Some r \<Longrightarrow> \<not> invalid_structure r"
  by (auto simp add: parse_response_def split: option.splits if_splits)

lemma parse_response_invalid:
  "parse_content rt c = Some v \<Longrightarrow> invalid_structure v \<Longrightarrow> parse_response rt (Some c) = None"
  by (simp add: parse_response_def)

lemma insight_ok:
  "response_ok status \<Longrightarrow>
   getPriceInsightFromGemini rt p (Responded status raw (Inr content))
     = Inr (case parse_response rt content of Some r \<Rightarrow> r | None \<Rightarrow> fallback p)"
  by (simp add: getPriceInsightFromGemini_def split: option.splits)

lemma insight_Inr:
  assumes "getPriceInsightFromGemini rt p reply = Inr r"
  shows "\<exists>status raw content. reply = Responded status raw (Inr content) \<and> response_ok status
          \<and> (parse_response rt content = Some r \<or> (parse_response rt content = None \<and> r = fallback p))"
  using assms
  by (auto simp add: getPriceInsightFromGemini_def split: gemini_reply.splits if_splits sum.splits option.splits)

lemma insight_valid:
  assumes "getPriceInsightFromGemini rt p reply = Inr r"
  shows "\<not> invalid_structure r"
  using insight_Inr [OF assms] parse_response_valid fallback_valid by blast

lemma Math_round_idem: "Math_round (Math_round x) = Math_round x"
  by (simp add: Math_round_def)

lemma inverted_valid: "\<not> invalid_structure inverted_value"
  by (simp add: invalid_structure_def inverted_value_def is_number_def fairness_labels_def str_def)

lemma good_valid: "\<not> invalid_structure good_value"
  by (simp add: invalid_structure_def good_value_def is_number_def fairness_labels_def str_def)

lemma inverted_text_nonempty: "inverted_text \<noteq> []"
  by (simp add: inverted_text_def str_def)

lemma good_text_nonempty: "good_text \<noteq> []"
  by (simp add: good_text_def str_def)

text \<open>
  C1, as stated, fails: the validation never compares the two prices, so a reply with
  \<open>recommended_min_price\<close> 5000 and \<open>recommended_max_price\<close> 3000 that is otherwise well
  formed is returned as it is.
\<close>

theorem inverted_range_returned:
  "getPriceInsightFromGemini (example_runtime [(inverted_text, inverted_value)])
     (example_payload 6000 11250) (Responded 200 [] (Inr (Some inverted_text)))
     = Inr inverted_value
   \<and> get_prop inverted_value (str ''recommended_min_price'') = Some (JNum 5000)
   \<and> get_prop inverted_value (str ''recommended_max_price'') = Some (JNum 3000)"
proof -
  have "parse_response (example_runtime [(inverted_text, inverted_value)]) (Some inverted_text)
        = Some inverted_value"
    by (simp add: parse_response_def parse_content_def example_runtime_def table_parse_def
        inverted_text_nonempty inverted_valid)
  then show ?thesis
    by (simp add: insight_ok response_ok_def) (simp add: inverted_value_def str_def)
qed

text \<open>
  C1, amended. Every recommendation that \<open>getPriceInsightFromGemini\<close> returns has numbers
  as its two prices, a confidence score in [0, 1] and a fairness label among cheap, fair
  and expensive, and a reply whose parsed value fails the validation is replaced by the
  fallback. The order of the two prices is not validated: it holds for the fallback
  whenever the calculated range is ordered.
\<close>

theorem returned_recommendation_checked:
  assumes "getPriceInsightFromGemini rt p reply = Inr r"
  shows "(\<exists>a b. get_prop r (str ''recommended_min_price'') = Some (JNum a)
              \<and> get_prop r (str ''recommended_max_price'') = Some (JNum b)
              \<and> (r = fallback p
                   \<and> range_min (calculated_range p) \<le> range_max (calculated_range p)
                   \<longrightarrow> a \<le> b))
       \<and> (\<exists>c. get_prop r (str ''confidence_score'') = Some (JNum c) \<and> 0 \<le> c \<and> c \<le> 1)
       \<and> (\<exists>l. get_prop r (str ''fairness_label'') = Some (JStr l)
                \<and> l \<in> {str ''cheap'', str ''fair'', str ''expensive''})
       \<and> (\<forall>status raw c v.
             reply = Responded status raw (Inr (Some c)) \<and> parse_content rt c = Some v
             \<and> invalid_structure v
             \<longrightarrow> r = fallback p)"
proof -
  have valid: "\<not> invalid_structure r"
    using assms by (rule insight_valid)
  from valid_fields [OF valid] obtain a b where
    ab: "get_prop r (str ''recommended_min_price'') = Some (JNum a)"
        "get_prop r (str ''recommended_max_price'') = Some (JNum b)"
    by blast
  have order: "r = fallback p \<and> range_min (calculated_range p) \<le> range_max (calculated_range p)
               \<longrightarrow> a \<le> b"
    using ab by (auto simp add: fallback_min fallback_max Math_round_mono)
  have replaced: "\<forall>status raw c v.
             reply = Responded status raw (Inr (Some c)) \<and> parse_content rt c = Some v
             \<and> invalid_structure v
             \<longrightarrow> r = fallback p"
    using insight_Inr [OF assms] by (auto simp add: parse_response_invalid)
  from valid_fields [OF valid] ab order replaced show ?thesis
    by blast
qed

lemma bad_invalid: "invalid_structure bad_value"
  by (simp add: invalid_structure_def bad_value_def is_number_def fairness_labels_def str_def)

lemma bad_text_nonempty: "bad_text \<noteq> []"
  by (simp add: bad_text_def str_def)

lemma table_parse_hit: "JSON_parse (example_runtime [(t, v)]) t = Inr v"
  by (simp add: example_runtime_def table_parse_def)

lemma table_parse_miss: "s \<noteq> t \<Longrightarrow> JSON_parse (example_runtime [(t, v)]) s = Inl (str ''Unexpected token'')"
  by (simp add: example_runtime_def table_parse_def)

theorem returned_recommendation_checked_witness:
  "getPriceInsightFromGemini (example_runtime [(good_text, good_value)])
     (example_payload 6000 11250) (Responded 200 [] (Inr (Some good_text))) = Inr good_value
   \<and> (\<exists>c. get_prop good_value (str ''confidence_score'') = Some (JNum c) \<and> 0 \<le> c \<and> c \<le> 1)
   \<and> (\<exists>l. get_prop good_value (str ''fairness_label'') = Some (JStr l)
            \<and> l \<in> {str ''cheap'', str ''fair'', str ''expensive''})
   \<and> getPriceInsightFromGemini (example_runtime [(bad_text, bad_value)])
       (example_payload 6000 11250) (Responded 200 [] (Inr (Some bad_text)))
       = Inr (fallback (example_payload 6000 11250))
   \<and> parse_content (example_runtime [(bad_text, bad_value)]) bad_text = Some bad_value
   \<and> invalid_structure bad_value
   \<and> range_min (calculated_range (example_payload 6000 11250))
       \<le> range_max (calculated_range (example_payload 6000 11250))
   \<and> (\<exists>a b. get_prop (fallback (example_payload 6000 11250)) (str ''recommended_min_price'')
               = Some (JNum a)
            \<and> get_prop (fallback (example_payload 6000 11250)) (str ''recommended_max_price'')
               = Some (JNum b)
            \<and> a \<le> b)"
proof -
  have good: "getPriceInsightFromGemini (example_runtime [(good_text, good_value)])
     (example_payload 6000 11250) (Responded 200 [] (Inr (Some good_text))) = Inr good_value"
    by (simp add: insight_ok response_ok_def parse_response_def parse_content_def
        table_parse_hit good_text_nonempty good_valid)
  have content: "parse_content (example_runtime [(bad_text, bad_value)]) bad_text = Some bad_value"
    by (simp add: parse_content_def table_parse_hit)
  have bad: "getPriceInsightFromGemini (example_runtime [(bad_text, bad_value)])
       (example_payload 6000 11250) (Responded 200 [] (Inr (Some bad_text)))
       = Inr (fallback (example_payload 6000 11250))"
    by (simp add: insight_ok response_ok_def parse_response_def content bad_text_nonempty bad_invalid)
  have ordered: "range_min (calculated_range (example_payload 6000 11250))
       \<le> range_max (calculated_range (example_payload 6000 11250))"
    by (simp add: example_payload_def)
  note G = returned_recommendation_checked [OF good]
  note B = returned_recommendation_checked [OF bad]
  have range: "\<exists>a b. get_prop (fallback (example_payload 6000 11250)) (str ''recommended_min_price'')
               = Some (JNum a)
            \<and> get_prop (fallback (example_payload 6000 11250)) (str ''recommended_max_price'')
               = Some (JNum b)
            \<and> a \<le> b"
    using B [THEN conjunct1] ordered by fast
  show ?thesis
    using good G [THEN conjunct2, THEN conjunct1] G [THEN conjunct2, THEN conjunct2, THEN conjunct1]
      bad content bad_invalid ordered range
    by (intro conjI)
qed

lemma match_braces_wrapped:
  assumes "123 \<notin> set pre" and "125 \<notin> set post"
  shows "match_braces (pre @ 123 # mid @ 125 # post) = Some (123 # mid @ [125])"
proof -
  have open_brace: "dropWhile (\<lambda>c. c \<noteq> 123) (pre @ 123 # mid @ 125 # post) = 123 # mid @ 125 # post"
    using assms(1) by (induction pre) auto
  have "dropWhile (\<lambda>c. c \<noteq> 125) (rev post @ 125 # rev mid @ [123]) = 125 # rev mid @ [123]"
    using assms(2) by (induction post rule: rev_induct) auto
  then have "rev (dropWhile (\<lambda>c. c \<noteq> 125) (rev (123 # mid @ 125 # post))) = 123 # mid @ [125]"
    by simp
  with open_brace show ?thesis
    by (simp add: match_braces_def Let_def)
qed

text \<open>
  C7, amended. The text is parsed as it is first, and a valid value is returned unchanged.
  When that parse throws, the text from the first opening brace to the last closing
  brace is parsed: an object wrapped in prose with no opening brace before it and no
  closing brace after it is extracted and, when valid, returned unchanged, with no
  fallback.
\<close>

theorem wrapped_object_extracted:
  assumes "response_ok code" and "\<not> invalid_structure v"
  shows "(c \<noteq> [] \<and> JSON_parse rt c = Inr v
          \<longrightarrow> getPriceInsightFromGemini rt p (Responded code raw (Inr (Some c))) = Inr v)
       \<and> (JSON_parse rt (pre @ 123 # mid @ 125 # post) = Inl e
          \<and> 123 \<notin> set pre \<and> 125 \<notin> set post
          \<and> JSON_parse rt (123 # mid @ [125]) = Inr v
          \<longrightarrow> match_braces (pre @ 123 # mid @ 125 # post) = Some (123 # mid @ [125])
            \<and> getPriceInsightFromGemini rt p
                 (Responded code raw (Inr (Some (pre @ 123 # mid @ 125 # post)))) = Inr v)"
  using assms
  by (auto simp add: insight_ok parse_response_def parse_content_def match_braces_wrapped)

lemma parse_failure_cases:
  "parse_response rt content = None \<longleftrightarrow>
     content = None \<or> content = Some []
     \<or> (\<exists>c. content = Some c
            \<and> (parse_content rt c = None
                \<or> (\<exists>v. parse_content rt c = Some v \<and> invalid_structure v)))"
  by (auto simp add: parse_response_def split: option.splits)

text \<open>
  C2, amended. When the provider answers with a 2xx status and the text is missing, empty,
  unparsable or invalid, the fallback is returned: its two prices are the rounded calculated
  range (the range itself when it is the handler's adjusted range), its label compares the
  midpoint of the range with 0.8 and 1.3 times the city average, its confidence is 0.6 and
  its explanation is put together from the fixed fragments. A status outside 2xx and a
  rejected \<open>fetch\<close> are not recovered: the function throws. The function reads one reply;
  there is no second call.
\<close>

theorem fallback_on_parse_failure:
  assumes "response_ok code" and "parse_response rt content = None"
  shows "getPriceInsightFromGemini rt p (Responded code raw (Inr content)) = Inr (fallback p)
       \<and> get_prop (fallback p) (str ''recommended_min_price'')
           = Some (JNum (Math_round (range_min (calculated_range p))))
       \<and> get_prop (fallback p) (str ''recommended_max_price'')
           = Some (JNum (Math_round (range_max (calculated_range p))))
       \<and> (range_min (calculated_range p) = min_price (adjusted_prices base m)
            \<and> range_max (calculated_range p) = max_price (adjusted_prices base m)
          \<longrightarrow> get_prop (fallback p) (str ''recommended_min_price'')
                = Some (JNum (range_min (calculated_range p)))
            \<and> get_prop (fallback p) (str ''recommended_max_price'')
                = Some (JNum (range_max (calculated_range p))))
       \<and> get_prop (fallback p) (str ''fairness_label'')
           = Some (JStr
               (if (range_min (calculated_range p) + range_max (calculated_range p)) / 2
                     < avg_price (base_city_prices p) * (8 / 10) then str ''cheap''
                else if (range_min (calculated_range p) + range_max (calculated_range p)) / 2
                     > avg_price (base_city_prices p) * (13 / 10) then str ''expensive''
                else str ''fair''))
       \<and> get_prop (fallback p) (str ''confidence_score'') = Some (JNum (6 / 10))
       \<and> get_prop (fallback p) (str ''explanation'')
           = Some (JStr
               (str ''Price recommendation based on demand analysis. ''
                @ (if is_peak_month (demand_context p) then str ''Peak season pricing applies. ''
                   else [])
                @ (if event_active (demand_context p)
                   then (case event_name (demand_context p) of None \<Rightarrow> str ''null'' | Some n \<Rightarrow> n)
                        @ str '' is happening during your dates. ''
                   else [])
                @ str ''This is a calculated estimate.''))
       \<and> (\<not> response_ok code'
          \<longrightarrow> (\<exists>e. getPriceInsightFromGemini rt p (Responded code' raw' data) = Inl e))
       \<and> getPriceInsightFromGemini rt p (Rejected msg) = Inl (Error msg)"
proof -
  have result: "getPriceInsightFromGemini rt p (Responded code raw (Inr content)) = Inr (fallback p)"
    using assms by (simp add: insight_ok)
  have whole: "range_min (calculated_range p) = min_price (adjusted_prices base m)
            \<and> range_max (calculated_range p) = max_price (adjusted_prices base m)
          \<longrightarrow> get_prop (fallback p) (str ''recommended_min_price'')
                = Some (JNum (range_min (calculated_range p)))
            \<and> get_prop (fallback p) (str ''recommended_max_price'')
                = Some (JNum (range_max (calculated_range p)))"
    by (simp add: fallback_min fallback_max adjusted_prices_def Math_round_idem)
  have label: "get_prop (fallback p) (str ''fairness_label'')
           = Some (JStr
               (if (range_min (calculated_range p) + range_max (calculated_range p)) / 2
                     < avg_price (base_city_prices p) * (8 / 10) then str ''cheap''
                else if (range_min (calculated_range p) + range_max (calculated_range p)) / 2
                     > avg_price (base_city_prices p) * (13 / 10) then str ''expensive''
                else str ''fair''))"
    by (simp add: fallback_label fairness_def Let_def)
  have template: "get_prop (fallback p) (str ''explanation'')
           = Some (JStr
               (str ''Price recommendation based on demand analysis. ''
                @ (if is_peak_month (demand_context p) then str ''Peak season pricing applies. ''
                   else [])
                @ (if event_active (demand_context p)
                   then (case event_name (demand_context p) of None \<Rightarrow> str ''null'' | Some n \<Rightarrow> n)
                        @ str '' is happening during your dates. ''
                   else [])
                @ str ''This is a calculated estimate.''))"
    by (simp only: fallback_explanation explanation_def)
  have failed: "\<not> response_ok code'
          \<longrightarrow> (\<exists>e. getPriceInsightFromGemini rt p (Responded code' raw' data) = Inl e)"
    by (simp add: getPriceInsightFromGemini_def)
  have rejected: "getPriceInsightFromGemini rt p (Rejected msg) = Inl (Error msg)"
    by (simp add: getPriceInsightFromGemini_def)
  show ?thesis
    using result fallback_min [of p] fallback_max [of p] whole label fallback_confidence [of p]
      template failed rejected
    by (intro conjI)
qed

text \<open>
  C2, as stated, fails: a 503 of the provider and a network error are thrown to the
  caller, and no fallback is returned.
\<close>

theorem server_error_not_recovered:
  "getPriceInsightFromGemini (example_runtime []) festival_payload
     (Responded 503 (str ''overloaded'') (Inr None))
     = Inl (Error (str ''Gemini API returned 503: overloaded''))
   \<and> getPriceInsightFromGemini (example_runtime []) festival_payload
       (Rejected (str ''connection refused'')) = Inl (Error (str ''connection refused''))"
  by (simp add: getPriceInsightFromGemini_def response_ok_def str_def show_nat.simps)

theorem fallback_on_parse_failure_witness:
  "response_ok 200
   \<and> parse_response (example_runtime []) None = None
   \<and> getPriceInsightFromGemini (example_runtime []) festival_payload (Responded 200 [] (Inr None))
       = Inr (fallback festival_payload)
   \<and> range_min (calculated_range festival_payload)
       = min_price (adjusted_prices \<lparr>min_price = 4000, avg_price = 5000, max_price = 7500\<rparr> (15 / 10))
   \<and> range_max (calculated_range festival_payload)
       = max_price (adjusted_prices \<lparr>min_price = 4000, avg_price = 5000, max_price = 7500\<rparr> (15 / 10))
   \<and> get_prop (fallback festival_payload) (str ''recommended_min_price'') = Some (JNum 6000)
   \<and> get_prop (fallback festival_payload) (str ''recommended_max_price'') = Some (JNum 11250)
   \<and> get_prop (fallback festival_payload) (str ''fairness_label'') = Some (JStr (str ''expensive''))
   \<and> get_prop (fallback festival_payload) (str ''confidence_score'') = Some (JNum (6 / 10))
   \<and> get_prop (fallback festival_payload) (str ''explanation'')
       = Some (JStr (str ''Price recommendation based on demand analysis. ''
                     @ str ''Peak season pricing applies. ''
                     @ str ''Diwali Festival is happening during your dates. ''
                     @ str ''This is a calculated estimate.''))
   \<and> \<not> response_ok 503
   \<and> (\<exists>e. getPriceInsightFromGemini (example_runtime []) festival_payload
              (Responded 503 (str ''overloaded'') (Inr None)) = Inl e)"
proof -
  have ok: "response_ok 200" and bad: "\<not> response_ok 503"
    by (simp_all add: response_ok_def)
  have none: "parse_response (example_runtime []) None = None"
    by (simp add: parse_response_def)
  have lo: "range_min (calculated_range festival_payload)
       = min_price (adjusted_prices \<lparr>min_price = 4000, avg_price = 5000, max_price = 7500\<rparr> (15 / 10))"
    and hi: "range_max (calculated_range festival_payload)
       = max_price (adjusted_prices \<lparr>min_price = 4000, avg_price = 5000, max_price = 7500\<rparr> (15 / 10))"
    by (simp_all add: festival_payload_def example_payload_def adjusted_prices_def Math_round_def)
  have fields: "range_min (calculated_range festival_payload) = 6000"
    "range_max (calculated_range festival_payload) = 11250"
    "avg_price (base_city_prices festival_payload) = 5000"
    "is_peak_month (demand_context festival_payload)"
    "event_active (demand_context festival_payload)"
    "event_name (demand_context festival_payload) = Some (str ''Diwali Festival'')"
    by (simp_all add: festival_payload_def example_payload_def)
  from fallback_on_parse_failure [OF ok none, where p = festival_payload
      and base = "\<lparr>min_price = 4000, avg_price = 5000, max_price = 7500\<rparr>" and m = "15 / 10"
      and code' = 503 and raw' = "str ''overloaded''" and data = "Inr None" and raw = "[]"]
    ok bad none lo hi
  show ?thesis
    by (simp add: fields Math_round_def str_def)
qed

lemmas reply_defs = braced_reply_def wrapped_reply_def good_text_def good_fields_def str_def

text \<open>
  C7, as stated, fails: the pattern takes the text from the first opening brace to the
  last closing brace, so a valid object followed by prose that has a closing brace is
  not extracted, and the fallback is returned.
\<close>

theorem trailing_brace_falls_back:
  "match_braces braced_reply = Some (good_text @ str '' (see {schema}'')
   \<and> JSON_parse (example_runtime [(good_text, good_value)]) good_text = Inr good_value
   \<and> \<not> invalid_structure good_value
   \<and> getPriceInsightFromGemini (example_runtime [(good_text, good_value)]) festival_payload
       (Responded 200 [] (Inr (Some braced_reply))) = Inr (fallback festival_payload)
   \<and> fallback festival_payload \<noteq> good_value"
proof -
  have span: "match_braces braced_reply = Some (good_text @ str '' (see {schema}'')"
    by (simp add: match_braces_def reply_defs)
  have whole: "JSON_parse (example_runtime [(good_text, good_value)]) braced_reply
               = Inl (str ''Unexpected token'')"
    by (rule table_parse_miss) (simp add: reply_defs)
  have part: "JSON_parse (example_runtime [(good_text, good_value)]) (good_text @ str '' (see {schema}'')
               = Inl (str ''Unexpected token'')"
    by (rule table_parse_miss) (simp add: reply_defs)
  have "braced_reply \<noteq> []"
    by (simp add: reply_defs)
  then have result: "getPriceInsightFromGemini (example_runtime [(good_text, good_value)])
       festival_payload (Responded 200 [] (Inr (Some braced_reply))) = Inr (fallback festival_payload)"
    by (simp add: insight_ok response_ok_def parse_response_def parse_content_def span whole part)
  have differ: "fallback festival_payload \<noteq> good_value"
    by (simp add: fallback_def good_value_def festival_payload_def example_payload_def Math_round_def)
  show ?thesis
    using span table_parse_hit [of good_text good_value] good_valid result differ
    by (intro conjI)
qed

theorem wrapped_object_extracted_witness:
  "response_ok 200 \<and> \<not> invalid_structure good_value
   \<and> good_text \<noteq> []
   \<and> JSON_parse (example_runtime [(good_text, good_value)]) good_text = Inr good_value
   \<and> getPriceInsightFromGemini (example_runtime [(good_text, good_value)]) festival_payload
       (Responded 200 [] (Inr (Some good_text))) = Inr good_value
   \<and> wrapped_reply = str ''Here is the recommendation: '' @ 123 # good_fields @ 125 # str '' Let me know.''
   \<and> JSON_parse (example_runtime [(good_text, good_value)]) wrapped_reply
       = Inl (str ''Unexpected token'')
   \<and> 123 \<notin> set (str ''Here is the recommendation: '') \<and> 125 \<notin> set (str '' Let me know.'')
   \<and> match_braces wrapped_reply = Some good_text
   \<and> getPriceInsightFromGemini (example_runtime [(good_text, good_value)]) festival_payload
       (Responded 200 [] (Inr (Some wrapped_reply))) = Inr good_value"
proof -
  have ok: "response_ok 200"
    by (simp add: response_ok_def)
  have shape: "wrapped_reply
               = str ''Here is the recommendation: '' @ 123 # good_fields @ 125 # str '' Let me know.''"
    and inner: "good_text = 123 # good_fields @ [125]"
    by (simp_all add: wrapped_reply_def good_text_def str_def)
  have whole: "JSON_parse (example_runtime [(good_text, good_value)]) wrapped_reply
               = Inl (str ''Unexpected token'')"
    by (rule table_parse_miss) (simp add: reply_defs)
  have clean: "123 \<notin> set (str ''Here is the recommendation: '')"
    "125 \<notin> set (str '' Let me know.'')"
    by (simp_all add: str_def)
  note W = wrapped_object_extracted [OF ok good_valid, where c = good_text
      and rt = "example_runtime [(good_text, good_value)]" and p = festival_payload and raw = "[]"
      and pre = "str ''Here is the recommendation: ''" and mid = good_fields
      and post = "str '' Let me know.''" and e = "str ''Unexpected token''"]
  have direct: "getPriceInsightFromGemini (example_runtime [(good_text, good_value)])
       festival_payload (Responded 200 [] (Inr (Some good_text))) = Inr good_value"
    using W good_text_nonempty table_parse_hit [of good_text good_value] by simp
  have extracted: "match_braces wrapped_reply = Some good_text
     \<and> getPriceInsightFromGemini (example_runtime [(good_text, good_value)]) festival_payload
       (Responded 200 [] (Inr (Some wrapped_reply))) = Inr good_value"
    using W whole clean table_parse_hit [of good_text good_value]
    unfolding shape inner by simp
  show ?thesis
    using ok good_valid good_text_nonempty table_parse_hit [of good_text good_value] direct shape
      whole clean extracted
    by (intro conjI) simp_all
qed

subsection \<open>Errors of the handler\<close>

lemma marked_rate_limit: "marked rate_limit_message"
  by (simp add: marked_def starts_with_def rate_limit_message_def str_def)

lemma unmarked_api_error: "\<not> marked (str ''Gemini API returned '' @ rest)"
  by (simp add: marked_def starts_with_def str_def)

lemma unmarked_key_error: "\<not> marked (str ''Gemini API key not configured'')"
  by (simp add: marked_def starts_with_def str_def)

lemma unmarked_null_hotel: "\<not> marked (message (null_hotel_error cityStats))"
  by (simp add: marked_def starts_with_def null_hotel_error_def Let_def str_def)

lemma friendly_message:
  "replace_first (str ''RATE_LIMIT: '') [] rate_limit_message
   = str ''Our AI service is currently busy. Please wait a minute and try again.''"
  by (simp add: rate_limit_message_def starts_with_def str_def)

lemma insight_Inl:
  assumes "getPriceInsightFromGemini rt p reply = Inl e"
  shows "(\<exists>m. reply = Rejected m \<and> e = Error m)
       \<or> (\<exists>raw data. reply = Responded 429 raw data \<and> e = Error rate_limit_message)
       \<or> (\<exists>code raw data rest. reply = Responded code raw data \<and> code \<noteq> 429
            \<and> e = Error (str ''Gemini API returned '' @ rest))
       \<or> (\<exists>code raw m. reply = Responded code raw (Inl m) \<and> response_ok code \<and> e = Error m)"
proof (cases reply)
  case (Rejected m)
  with assms show ?thesis by (simp add: getPriceInsightFromGemini_def)
next
  case (Responded code raw data)
  show ?thesis
  proof (cases "response_ok code")
    case False
    with assms Responded show ?thesis
      by (cases "code = 429") (auto simp add: getPriceInsightFromGemini_def)
  next
    case True
    with assms Responded show ?thesis
      by (cases data) (auto simp add: getPriceInsightFromGemini_def split: option.splits)
  qed
qed

lemma fresh_Inl:
  assumes "fresh rt w q = Inl e"
  shows "\<not> marked (message e)
       \<or> (\<exists>p. hotel_of w q \<noteq> None
              \<and> GEMINI_API_KEY w \<noteq> None \<and> GEMINI_API_KEY w \<noteq> Some []
              \<and> getPriceInsightFromGemini rt p (gemini w) = Inl e)"
  using assms
  by (auto simp add: fresh_def Let_def unmarked_null_hotel unmarked_key_error
      split: option.splits if_splits sum.splits)

lemma fresh_rate_limited:
  assumes "hotel_of w q \<noteq> None"
    and "GEMINI_API_KEY w \<noteq> None" and "GEMINI_API_KEY w \<noteq> Some []"
    and "gemini w = Responded 429 raw data"
  shows "fresh rt w q = Inl (Error rate_limit_message)"
  using assms
  by (auto simp add: fresh_def Let_def getPriceInsightFromGemini_def response_ok_def
      split: option.splits)

lemma error_response_status:
  "res_status (error_response w e) = (if marked (message e) then 429 else 500)"
  by (simp add: error_response_def Let_def)

lemma error_response_body:
  "res_body (error_response w e)
   = Some (JObj [(str ''error'', JStr (if marked (message e)
                                      then replace_first (str ''RATE_LIMIT: '') [] (message e)
                                      else message e)),
                 (str ''code'', JNum (if marked (message e) then 429 else 500)),
                 (str ''timestamp'', JStr (error_time w))])"
  by (simp add: error_response_def Let_def)

text \<open>
  C3. A request that is not a preflight gets status 429 exactly when the handler reached
  the AI provider and the provider answered with HTTP 429; the body is then the friendly
  busy message with the code 429 and the timestamp. Every other error thrown in the
  handler (an unreadable request, a missing hotel row, a missing key, another status of
  the provider, a network error, an unreadable body of the provider) gives status 500
  with the error's message, the code 500 and the timestamp. The messages that come from
  the runtime itself are taken not to start with the marker \<open>RATE_LIMIT:\<close>.
\<close>

theorem rate_limit_status:
  assumes "req_method req \<noteq> str ''OPTIONS''"
    and "\<forall>m. req_json req = Inl m \<longrightarrow> \<not> marked m"
    and "\<forall>m. gemini w = Rejected m \<longrightarrow> \<not> marked m"
    and "\<forall>code raw m. gemini w = Responded code raw (Inl m) \<and> response_ok code \<longrightarrow> \<not> marked m"
  shows "(res_status (fst (serve rt w req)) = 429 \<longleftrightarrow>
            (\<exists>q raw data. req_json req = Inr q \<and> provider_called w q
                \<and> gemini w = Responded 429 raw data))
       \<and> (res_status (fst (serve rt w req)) = 429 \<longrightarrow>
            res_body (fst (serve rt w req))
            = Some (JObj
                [(str ''error'',
                  JStr (str ''Our AI service is currently busy. Please wait a minute and try again.'')),
                 (str ''code'', JNum 429),
                 (str ''timestamp'', JStr (error_time w))]))
       \<and> (\<forall>e. attempt rt w req = Inl e \<and> res_status (fst (serve rt w req)) \<noteq> 429 \<longrightarrow>
            res_status (fst (serve rt w req)) = 500
            \<and> res_body (fst (serve rt w req))
              = Some (JObj [(str ''error'', JStr (message e)), (str ''code'', JNum 500),
                            (str ''timestamp'', JStr (error_time w))]))
       \<and> ((\<exists>b table. attempt rt w req = Inr (b, table)) \<longrightarrow>
            res_status (fst (serve rt w req)) = 200)"
proof (cases "attempt rt w req")
  case (Inr ok)
  then have served: "res_status (fst (serve rt w req)) = 200"
    using assms(1) by (cases ok) (simp add: serve_def)
  have "\<not> (\<exists>q raw data. req_json req = Inr q \<and> provider_called w q
                \<and> gemini w = Responded 429 raw data)"
  proof
    assume "\<exists>q raw data. req_json req = Inr q \<and> provider_called w q
                \<and> gemini w = Responded 429 raw data"
    then obtain q raw data where q: "req_json req = Inr q" "provider_called w q"
      "gemini w = Responded 429 raw data" by blast
    then have "fresh rt w q = Inl (Error rate_limit_message)"
      by (simp add: provider_called_def fresh_rate_limited)
    with q have "attempt rt w req = Inl (Error rate_limit_message)"
      by (simp add: attempt_def provider_called_def)
    with Inr show False by simp
  qed
  with served Inr show ?thesis by simp
next
  case (Inl e)
  then have served: "fst (serve rt w req) = error_response w e"
    using assms(1) by (simp add: serve_def)
  have source: "marked (message e) \<longleftrightarrow>
      (\<exists>q raw data. req_json req = Inr q \<and> provider_called w q
                \<and> gemini w = Responded 429 raw data)"
  proof
    assume m: "marked (message e)"
    from Inl assms(2) m obtain q where q: "req_json req = Inr q" "cachedPrediction w q = None"
      "fresh rt w q = Inl e"
      by (auto simp add: attempt_def split: sum.splits option.splits)
    from fresh_Inl [OF q(3)] m obtain p where p:
      "hotel_of w q \<noteq> None"
      "GEMINI_API_KEY w \<noteq> None" "GEMINI_API_KEY w \<noteq> Some []"
      "getPriceInsightFromGemini rt p (gemini w) = Inl e"
      by blast
    from insight_Inl [OF p(4)] m assms(3,4) have "\<exists>raw data. gemini w = Responded 429 raw data"
      by (auto simp add: unmarked_api_error)
    with q p show "\<exists>q raw data. req_json req = Inr q \<and> provider_called w q
                \<and> gemini w = Responded 429 raw data"
      by (auto simp add: provider_called_def)
  next
    assume "\<exists>q raw data. req_json req = Inr q \<and> provider_called w q
                \<and> gemini w = Responded 429 raw data"
    then obtain q raw data where q: "req_json req = Inr q" "provider_called w q"
      "gemini w = Responded 429 raw data" by blast
    then have "fresh rt w q = Inl (Error rate_limit_message)"
      by (simp add: provider_called_def fresh_rate_limited)
    with q have "attempt rt w req = Inl (Error rate_limit_message)"
      by (simp add: attempt_def provider_called_def)
    with Inl have "e = Error rate_limit_message" by simp
    then show "marked (message e)"
      by (simp add: marked_rate_limit)
  qed
  have limited: "e = Error rate_limit_message" if "marked (message e)"
  proof -
    from that source obtain q raw data where q: "req_json req = Inr q" "provider_called w q"
      "gemini w = Responded 429 raw data" by blast
    then have "fresh rt w q = Inl (Error rate_limit_message)"
      by (simp add: provider_called_def fresh_rate_limited)
    with q have "attempt rt w req = Inl (Error rate_limit_message)"
      by (simp add: attempt_def provider_called_def)
    with Inl show ?thesis by simp
  qed
  have status: "res_status (fst (serve rt w req)) = (if marked (message e) then 429 else 500)"
    by (simp add: served error_response_status)
  have c1: "res_status (fst (serve rt w req)) = 429 \<longleftrightarrow>
            (\<exists>q raw data. req_json req = Inr q \<and> provider_called w q
                \<and> gemini w = Responded 429 raw data)"
    using status source by simp
  have c2: "res_status (fst (serve rt w req)) = 429 \<longrightarrow>
            res_body (fst (serve rt w req))
            = Some (JObj
                [(str ''error'',
                  JStr (str ''Our AI service is currently busy. Please wait a minute and try again.'')),
                 (str ''code'', JNum 429),
                 (str ''timestamp'', JStr (error_time w))])"
  proof
    assume "res_status (fst (serve rt w req)) = 429"
    with status have m: "marked (message e)" by (simp split: if_splits)
    with limited have "e = Error rate_limit_message" by simp
    with m show "res_body (fst (serve rt w req))
            = Some (JObj
                [(str ''error'',
                  JStr (str ''Our AI service is currently busy. Please wait a minute and try again.'')),
                 (str ''code'', JNum 429),
                 (str ''timestamp'', JStr (error_time w))])"
      by (simp add: served error_response_body friendly_message)
  qed
  have c3: "\<forall>e'. attempt rt w req = Inl e' \<and> res_status (fst (serve rt w req)) \<noteq> 429 \<longrightarrow>
            res_status (fst (serve rt w req)) = 500
            \<and> res_body (fst (serve rt w req))
              = Some (JObj [(str ''error'', JStr (message e')), (str ''code'', JNum 500),
                            (str ''timestamp'', JStr (error_time w))])"
    using Inl status by (auto simp add: served error_response_body split: if_splits)
  have c4: "(\<exists>b table. attempt rt w req = Inr (b, table)) \<longrightarrow>
            res_status (fst (serve rt w req)) = 200"
    using Inl by simp
  from c1 c2 c3 c4 show ?thesis by (intro conjI)
qed

lemma example_not_options: "req_method example_request \<noteq> str ''OPTIONS''"
  by (simp add: example_request_def str_def)

lemma example_provider_called: "provider_called (example_world\<lparr>gemini := reply\<rparr>) example_stay"
  by (simp add: provider_called_def example_world_def cachedPrediction_def example_stay_def
      example_hotel_def hotel_of_def str_def)

lemma unmarked_refused: "\<not> marked (str ''connection refused'')"
  by (simp add: marked_def starts_with_def str_def)

lemma example_rejected:
  "attempt (example_runtime []) (example_world\<lparr>gemini := Rejected m\<rparr>) example_request
   = Inl (Error m)"
  by (simp add: attempt_def example_request_def cachedPrediction_def fresh_def hotel_of_def
      example_world_def example_stay_def example_hotel_def str_def getPriceInsightFromGemini_def)

theorem rate_limit_status_witness:
  "req_method example_request \<noteq> str ''OPTIONS''
   \<and> req_json example_request = Inr example_stay
   \<and> provider_called (example_world\<lparr>gemini := Responded 429 (str ''quota exceeded'') (Inr None)\<rparr>)
       example_stay
   \<and> fst (serve (example_runtime [])
            (example_world\<lparr>gemini := Responded 429 (str ''quota exceeded'') (Inr None)\<rparr>)
            example_request)
       = \<lparr>res_status = 429,
          res_body = Some (JObj
            [(str ''error'',
              JStr (str ''Our AI service is currently busy. Please wait a minute and try again.'')),
             (str ''code'', JNum 429),
             (str ''timestamp'', JStr (str ''2024-10-27T03:33:22.000Z''))])\<rparr>
   \<and> \<not> marked (str ''connection refused'')
   \<and> attempt (example_runtime []) (example_world\<lparr>gemini := Rejected (str ''connection refused'')\<rparr>)
       example_request = Inl (Error (str ''connection refused''))
   \<and> fst (serve (example_runtime [])
            (example_world\<lparr>gemini := Rejected (str ''connection refused'')\<rparr>) example_request)
       = \<lparr>res_status = 500,
          res_body = Some (JObj
            [(str ''error'', JStr (str ''connection refused'')),
             (str ''code'', JNum 500),
             (str ''timestamp'', JStr (str ''2024-10-27T03:33:22.000Z''))])\<rparr>"
proof -
  let ?busy = "example_world\<lparr>gemini := Responded 429 (str ''quota exceeded'') (Inr None)\<rparr>"
  let ?down = "example_world\<lparr>gemini := Rejected (str ''connection refused'')\<rparr>"
  have body: "req_json example_request = Inr example_stay"
    by (simp add: example_request_def)
  have time: "error_time ?busy = str ''2024-10-27T03:33:22.000Z''"
    "error_time ?down = str ''2024-10-27T03:33:22.000Z''"
    by (simp_all add: example_world_def)
  note busy = rate_limit_status [where req = example_request and w = ?busy
      and rt = "example_runtime []", OF example_not_options]
  have "res_status (fst (serve (example_runtime []) ?busy example_request)) = 429
        \<and> res_body (fst (serve (example_runtime []) ?busy example_request))
          = Some (JObj
            [(str ''error'',
              JStr (str ''Our AI service is currently busy. Please wait a minute and try again.'')),
             (str ''code'', JNum 429),
             (str ''timestamp'', JStr (str ''2024-10-27T03:33:22.000Z''))])"
    using busy body example_provider_called [of "Responded 429 (str ''quota exceeded'') (Inr None)"]
      time
    by simp
  then have first: "fst (serve (example_runtime []) ?busy example_request)
       = \<lparr>res_status = 429,
          res_body = Some (JObj
            [(str ''error'',
              JStr (str ''Our AI service is currently busy. Please wait a minute and try again.'')),
             (str ''code'', JNum 429),
             (str ''timestamp'', JStr (str ''2024-10-27T03:33:22.000Z''))])\<rparr>"
    by (cases "fst (serve (example_runtime []) ?busy example_request)") simp
  note down = rate_limit_status [where req = example_request and w = ?down
      and rt = "example_runtime []", OF example_not_options]
  have "res_status (fst (serve (example_runtime []) ?down example_request)) = 500
        \<and> res_body (fst (serve (example_runtime []) ?down example_request))
          = Some (JObj
            [(str ''error'', JStr (str ''connection refused'')),
             (str ''code'', JNum 500),
             (str ''timestamp'', JStr (str ''2024-10-27T03:33:22.000Z''))])"
    using down body unmarked_refused example_rejected [of "str ''connection refused''"] time
    by simp
  then have second: "fst (serve (example_runtime []) ?down example_request)
       = \<lparr>res_status = 500,
          res_body = Some (JObj
            [(str ''error'', JStr (str ''connection refused'')),
             (str ''code'', JNum 500),
             (str ''timestamp'', JStr (str ''2024-10-27T03:33:22.000Z''))])\<rparr>"
    by (cases "fst (serve (example_runtime []) ?down example_request)") simp
  show ?thesis
    using example_not_options body
      example_provider_called [of "Responded 429 (str ''quota exceeded'') (Inr None)"]
      first unmarked_refused example_rejected [of "str ''connection refused''"] second
    by (intro conjI)
qed

subsection \<open>The prediction cache\<close>

lemma map_of_set_prop:
  "map_of (set_prop kvs k v) k' = (if k' = k then Some v else map_of kvs k')"
  by (induction kvs k v rule: set_prop.induct) auto

lemma stored_event_name:
  "get_prop (stored_response ai d) (str ''event_name'') = Some (name_json (eventName d))"
  by (simp add: stored_response_def map_of_set_prop str_def)

lemma cached_event_name:
  "get_path (cached_response c) [str ''demand_context'', str ''event_name'']
   = Some (or_else (get_prop (gemini_response c) (str ''event_name'')) JNull)"
  by (simp add: cached_response_def Let_def str_def)

lemma cached_flag: "get_path (cached_response c) [str ''cached''] = Some (JBool True)"
  by (simp add: cached_response_def Let_def str_def)

lemma fresh_event_name:
  "get_path (fresh_response base adj ai d) [str ''demand_context'', str ''event_name'']
   = Some (name_json (eventName d))"
  by (simp add: fresh_response_def str_def)

lemma fresh_flag: "get_path (fresh_response base adj ai d) [str ''cached''] = Some (JBool False)"
  by (simp add: fresh_response_def str_def)

lemma blank_match:
  "match_event blank_event = Some ([32], str ''2024-11-01'', str ''2024-11-05'')"
  by (simp add: blank_event_def pattern_defs)

lemma blank_scan:
  "scan_events (example_runtime []) (str ''2024-11-02'') (eventParts (Some blank_demand))
   = (True, Some [])"
proof -
  have "eventParts (Some blank_demand) = [blank_event]"
    by (simp add: eventParts_def blank_demand_def blank_event_def str_def)
  moreover have "trim [32] = []"
    by (simp add: trim_def is_white_space_def)
  ultimately show ?thesis
    by (simp add: blank_match date_le_def ex_times)
qed

lemma blank_binary_demand:
  "binary_demand (example_runtime []) (Some blank_demand) (str ''2024-11-02'')
   = \<lparr>peak = True, eventActive = True, eventName = Some [], multiplier = 15 / 10\<rparr>"
proof -
  have "peakMonths (Some blank_demand) = [Some 10, Some 11]"
    by (simp add: peakMonths_def blank_demand_def str_def trim_def is_white_space_def
        parseInt_def radix_digit_def Let_def)
  then have "isPeakMonth (example_runtime []) (Some blank_demand) (str ''2024-11-02'')"
    by (simp add: isPeakMonth_def checkInMonth_def ex_months)
  then show ?thesis
    by (simp add: binary_demand_def blank_scan demandMultiplier_def)
qed

lemma latest_Nil: "latest rows = None \<longleftrightarrow> rows = []"
  by (cases rows) (auto split: option.splits)

lemma latest_member: "latest rows = Some c \<Longrightarrow> c \<in> set rows"
  by (induction rows arbitrary: c) (auto split: option.splits if_splits)

lemma latest_greatest: "latest rows = Some c \<Longrightarrow> r \<in> set rows \<Longrightarrow> created_at r \<le> created_at c"
  by (induction rows arbitrary: c) (auto split: option.splits if_splits simp add: latest_Nil)

lemma cached_in_window:
  assumes "cachedPrediction w q = Some c"
  shows "c \<in> set (price_predictions w) \<and> cache_key q c \<and> cacheExpiryTime w \<le> created_at c
       \<and> (\<forall>r \<in> set (price_predictions w).
             cache_key q r \<and> cacheExpiryTime w \<le> created_at r \<longrightarrow> created_at r \<le> created_at c)"
  using latest_member [OF assms [unfolded cachedPrediction_def]]
    latest_greatest [OF assms [unfolded cachedPrediction_def]]
  by auto

lemma serve_cached:
  assumes "req_method req \<noteq> str ''OPTIONS''" and "req_json req = Inr q"
    and "cachedPrediction w q = Some c"
  shows "serve rt w req
         = (\<lparr>res_status = 200, res_body = Some (cached_response c)\<rparr>, price_predictions w)"
  using assms by (simp add: serve_def attempt_def)

lemma fresh_Inr:
  assumes "fresh rt w q = Inr (b, table)"
  shows "\<exists>h ai.
           hotel_of w q = Some h
           \<and> getPriceInsightFromGemini rt (stay_payload rt w q h) (gemini w) = Inr ai
           \<and> b = fresh_response (stay_base w q h) (stay_adjusted rt w q h) ai (stay_demand rt w q)
           \<and> table = price_predictions w @ [new_prediction rt w q h ai]"
  using assms
  by (auto simp add: fresh_def split: option.splits if_splits sum.splits)

lemma serve_fresh:
  assumes "req_method req \<noteq> str ''OPTIONS''" and "req_json req = Inr q"
    and "cachedPrediction w q = None" and "fresh rt w q = Inr (b, table)"
  shows "serve rt w req = (\<lparr>res_status = 200, res_body = Some b\<rparr>, table)"
  using assms by (simp add: serve_def attempt_def)

lemma new_prediction_key: "cache_key q (new_prediction rt w q h ai)"
  by (simp add: cache_key_def new_prediction_def)

lemma valid_is_object: "\<not> invalid_structure r \<Longrightarrow> \<exists>kvs. r = JObj kvs"
  by (cases r) (simp_all add: invalid_structure_def is_number_def)

lemma stored_keeps:
  assumes "k \<notin> {str ''is_peak_month'', str ''event_active'', str ''event_name'',
                 str ''demand_multiplier''}"
  shows "get_prop (stored_response (JObj kvs) d) k = get_prop (JObj kvs) k"
  using assms by (simp add: stored_response_def map_of_set_prop)

lemma stored_context:
  "get_prop (stored_response ai d) (str ''is_peak_month'') = Some (JBool (peak d))"
  "get_prop (stored_response ai d) (str ''event_active'') = Some (JBool (eventActive d))"
  "get_prop (stored_response ai d) (str ''demand_multiplier'') = Some (JNum (multiplier d))"
  by (simp_all add: stored_response_def map_of_set_prop str_def)

lemma multiplier_positive: "1 \<le> multiplier (binary_demand rt cityDemand ci)"
  by (simp add: binary_demand_def Let_def demandMultiplier_def)

text \<open>The second of two identical requests finds the row that the first one inserted,
  as long as that row is inside the window.\<close>

lemma second_request_hits:
  assumes miss: "cachedPrediction w q = None"
    and first: "fresh rt w q = Inr (b, table)"
    and table: "price_predictions w' = table"
    and later: "now w \<le> now w'"
    and inside: "cacheExpiryTime w' \<le> insert_at w"
  shows "\<exists>h ai. hotel_of w q = Some h
           \<and> getPriceInsightFromGemini rt (stay_payload rt w q h) (gemini w) = Inr ai
           \<and> b = fresh_response (stay_base w q h) (stay_adjusted rt w q h) ai (stay_demand rt w q)
           \<and> table = price_predictions w @ [new_prediction rt w q h ai]
           \<and> cachedPrediction w' q = Some (new_prediction rt w q h ai)"
proof -
  from fresh_Inr [OF first] obtain h ai where f:
    "hotel_of w q = Some h"
    "getPriceInsightFromGemini rt (stay_payload rt w q h) (gemini w) = Inr ai"
    "b = fresh_response (stay_base w q h) (stay_adjusted rt w q h) ai (stay_demand rt w q)"
    "table = price_predictions w @ [new_prediction rt w q h ai]"
    by blast
  from miss have old: "filter (\<lambda>r. cache_key q r \<and> cacheExpiryTime w \<le> created_at r)
                         (price_predictions w) = []"
    by (simp add: cachedPrediction_def latest_Nil)
  from later have "cacheExpiryTime w \<le> cacheExpiryTime w'"
    by (simp add: cacheExpiryTime_def)
  with old have "filter (\<lambda>r. cache_key q r \<and> cacheExpiryTime w' \<le> created_at r)
                   (price_predictions w) = []"
    by (auto simp add: filter_empty_conv)
  moreover have "created_at (new_prediction rt w q h ai) = insert_at w"
    by (simp add: new_prediction_def)
  ultimately have "cachedPrediction w' q = Some (new_prediction rt w q h ai)"
    using inside by (simp add: cachedPrediction_def table f(4) new_prediction_key)
  with f show ?thesis by blast
qed

lemma fresh_paths:
  "get_path (fresh_response base adj ai d) [str ''ai_recommendation'', k] = get_prop ai k"
  "get_path (fresh_response base adj ai d) [str ''demand_context'', str ''is_peak_month'']
   = Some (JBool (peak d))"
  "get_path (fresh_response base adj ai d) [str ''demand_context'', str ''event_active'']
   = Some (JBool (eventActive d))"
  "get_path (fresh_response base adj ai d) [str ''demand_context'', str ''demand_multiplier'']
   = Some (JNum (multiplier d))"
  by (simp_all add: fresh_response_def str_def split: option.splits)

lemma cached_paths:
  "get_path (cached_response c) [str ''ai_recommendation'', k] = get_prop (gemini_response c) k"
  "get_path (cached_response c) [str ''demand_context'', str ''is_peak_month'']
   = Some (or_else (get_prop (gemini_response c) (str ''is_peak_month'')) (JBool False))"
  "get_path (cached_response c) [str ''demand_context'', str ''event_active'']
   = Some (or_else (get_prop (gemini_response c) (str ''event_active'')) (JBool False))"
  "get_path (cached_response c) [str ''demand_context'', str ''demand_multiplier'']
   = Some (or_else (get_prop (gemini_response c) (str ''demand_multiplier'')) (JNum 1))"
  by (simp_all add: cached_response_def Let_def str_def split: option.splits)

text \<open>What the cached response repeats of the fresh one: the five properties of the
  recommendation, the two flags and the multiplier, and the event name unless it is the
  empty string.\<close>

lemma cached_repeats_fresh:
  assumes ai: "getPriceInsightFromGemini rt p reply = Inr ai"
    and d: "d = binary_demand rt cityDemand ci"
    and c: "gemini_response c = stored_response ai d"
  shows "get_path (cached_response c) [str ''cached''] = Some (JBool True)"
    and "k \<in> {str ''recommended_min_price'', str ''recommended_max_price'', str ''fairness_label'',
              str ''confidence_score'', str ''explanation''}
         \<Longrightarrow> get_path (cached_response c) [str ''ai_recommendation'', k]
             = get_path (fresh_response base adj ai d) [str ''ai_recommendation'', k]"
    and "k \<in> {str ''is_peak_month'', str ''event_active'', str ''demand_multiplier''}
         \<Longrightarrow> get_path (cached_response c) [str ''demand_context'', k]
             = get_path (fresh_response base adj ai d) [str ''demand_context'', k]"
    and "eventName d \<noteq> Some []
         \<Longrightarrow> get_path (cached_response c) [str ''demand_context'', str ''event_name'']
             = get_path (fresh_response base adj ai d) [str ''demand_context'', str ''event_name'']"
proof -
  show "get_path (cached_response c) [str ''cached''] = Some (JBool True)"
    by (rule cached_flag)
  from insight_valid [OF ai] valid_is_object obtain kvs where kvs: "ai = JObj kvs"
    by blast
  show "get_path (cached_response c) [str ''ai_recommendation'', k]
             = get_path (fresh_response base adj ai d) [str ''ai_recommendation'', k]"
    if "k \<in> {str ''recommended_min_price'', str ''recommended_max_price'', str ''fairness_label'',
              str ''confidence_score'', str ''explanation''}"
  proof -
    from that have "k \<notin> {str ''is_peak_month'', str ''event_active'', str ''event_name'',
                 str ''demand_multiplier''}"
      by (auto simp add: str_def)
    then show ?thesis
      unfolding cached_paths fresh_paths c kvs by (rule stored_keeps)
  qed
  have m: "multiplier d \<noteq> 0"
    using multiplier_positive [of rt cityDemand ci] d by simp
  show "get_path (cached_response c) [str ''demand_context'', k]
             = get_path (fresh_response base adj ai d) [str ''demand_context'', k]"
    if "k \<in> {str ''is_peak_month'', str ''event_active'', str ''demand_multiplier''}"
    using that m
    by (auto simp add: cached_paths fresh_paths c stored_context simp del: get_path.simps)
  show "get_path (cached_response c) [str ''demand_context'', str ''event_name'']
             = get_path (fresh_response base adj ai d) [str ''demand_context'', str ''event_name'']"
    if "eventName d \<noteq> Some []"
    using that
    by (cases "eventName d")
       (simp_all add: cached_event_name fresh_event_name c stored_event_name name_json_def
          del: get_path.simps)
qed

lemma blank_demand_found: "cityDemand_of blank_world example_stay = Some blank_demand"
  by (simp add: cityDemand_of_def blank_world_def example_world_def blank_demand_def
      example_stay_def)

lemma blank_stay_demand:
  "stay_demand (example_runtime []) blank_world example_stay
   = \<lparr>peak = True, eventActive = True, eventName = Some [], multiplier = 15 / 10\<rparr>"
proof -
  have "req_check_in example_stay = str ''2024-11-02''"
    by (simp add: example_stay_def)
  then show ?thesis
    by (simp add: stay_demand_def blank_demand_found blank_binary_demand)
qed

lemma blank_miss: "cachedPrediction blank_world example_stay = None"
  by (simp add: cachedPrediction_def blank_world_def example_world_def)

lemma blank_fresh:
  "fresh (example_runtime []) blank_world example_stay
   = Inr (fresh_response (stay_base blank_world example_stay example_hotel)
            (stay_adjusted (example_runtime []) blank_world example_stay example_hotel)
            (fallback (stay_payload (example_runtime []) blank_world example_stay example_hotel))
            (stay_demand (example_runtime []) blank_world example_stay),
          price_predictions blank_world
          @ [new_prediction (example_runtime []) blank_world example_stay example_hotel
               (fallback (stay_payload (example_runtime []) blank_world example_stay
                  example_hotel))])"
proof -
  have "hotel_of blank_world example_stay = Some example_hotel"
    by (simp add: hotel_of_def blank_world_def example_world_def example_stay_def example_hotel_def)
  moreover have "GEMINI_API_KEY blank_world = Some (str ''secret'')"
    "gemini blank_world = Responded 200 [] (Inr None)"
    by (simp_all add: blank_world_def example_world_def)
  moreover have "str ''secret'' \<noteq> []"
    by (simp add: str_def)
  ultimately show ?thesis
    by (simp add: fresh_def insight_ok response_ok_def parse_response_def)
qed

text \<open>
  C5, at an input where it fails. The events text of the city is
  \<open> (2024-11-01-2024-11-05)\<close> (a blank before the parenthesis, an en dash between the
  dates): the pattern matches with the name \<open>" "\<close>, which trims to the empty string. The
  first request computes fresh and answers with the event name \<open>""\<close>; the identical
  request a minute later is served from the cache, with \<open>cached\<close> true, and answers with
  the event name \<open>null\<close>, because \<open>event_name || null\<close> takes the stored empty string for
  a missing one. The lemmas above give what the cache does keep: the lookup takes a latest
  matching row inside the window, a fresh computation appends one row and a hit none, and
  the cached response repeats the recommendation, the two flags, the multiplier and every
  event name that is not empty.
\<close>

theorem blank_event_name_not_repeated:
  "body_path (fst (serve (example_runtime []) blank_world example_request)) [str ''cached'']
     = Some (JBool False)
   \<and> body_path (fst (serve (example_runtime []) blank_world example_request))
       [str ''demand_context'', str ''event_name''] = Some (JStr [])
   \<and> body_path (fst (serve (example_runtime []) blank_world_later example_request))
       [str ''cached''] = Some (JBool True)
   \<and> body_path (fst (serve (example_runtime []) blank_world_later example_request))
       [str ''demand_context'', str ''event_name''] = Some JNull"
proof -
  let ?rt = "example_runtime []"
  let ?ai = "fallback (stay_payload ?rt blank_world example_stay example_hotel)"
  let ?row = "new_prediction ?rt blank_world example_stay example_hotel ?ai"
  have body: "req_json example_request = Inr example_stay"
    by (simp add: example_request_def)
  from serve_fresh [OF example_not_options body blank_miss blank_fresh]
  have first: "serve ?rt blank_world example_request
    = (\<lparr>res_status = 200,
        res_body = Some (fresh_response (stay_base blank_world example_stay example_hotel)
            (stay_adjusted ?rt blank_world example_stay example_hotel) ?ai
            (stay_demand ?rt blank_world example_stay))\<rparr>,
       price_predictions blank_world @ [?row])" .
  have table: "price_predictions blank_world_later = price_predictions blank_world @ [?row]"
    by (simp add: blank_world_later_def first)
  have later: "now blank_world \<le> now blank_world_later"
    and inside: "cacheExpiryTime blank_world_later \<le> insert_at blank_world"
    by (simp_all add: blank_world_later_def blank_world_def example_world_def cacheExpiryTime_def
        CACHE_DURATION_HOURS_def)
  from second_request_hits [OF blank_miss blank_fresh table later inside]
  have hit: "cachedPrediction blank_world_later example_stay = Some ?row"
    by (auto simp add: blank_fresh)
  from serve_cached [OF example_not_options body hit]
  have second: "serve ?rt blank_world_later example_request
    = (\<lparr>res_status = 200, res_body = Some (cached_response ?row)\<rparr>,
       price_predictions blank_world_later)" .
  have stored: "gemini_response ?row = stored_response ?ai (stay_demand ?rt blank_world example_stay)"
    by (simp add: new_prediction_def)
  show ?thesis
    by (simp add: first second body_path_def fresh_flag fresh_event_name cached_flag
        cached_event_name stored stored_event_name blank_stay_demand name_json_def
        del: get_path.simps)
qed

subsection \<open>The weighted score\<close>

lemma halve_ulp_numeral:
  "halve_ulp (numeral k) y u
   = (if y < 2 ^ 52 then halve_ulp (pred_numeral k) (y * 2) (u / 2) else u)"
  by (simp add: numeral_eq_Suc)

lemma double_ulp_numeral:
  "double_ulp (numeral k) y u
   = (if 2 ^ 53 \<le> y then double_ulp (pred_numeral k) (y / 2) (u * 2) else u)"
  by (simp add: numeral_eq_Suc)

lemmas double_eval = double_def ulp_def round_half_even_def halve_ulp_numeral double_ulp_numeral

lemma double_literals:
  "double (1 / 10) = 3602879701896397 / 2 ^ 55"
  "double (2 / 10) = 3602879701896397 / 2 ^ 54"
  "double (3 / 10) = 5404319552844595 / 2 ^ 54"
  "double (4 / 10) = 3602879701896397 / 2 ^ 53"
  "double (5 / 10) = 1 / 2"
  by (simp_all add: double_eval)

lemma double_peak: "double (0 + double (3 / 10)) = double (3 / 10)"
  by (simp add: double_eval)

lemma impactScore_eq:
  "impactScore i
   = (case i of Low \<Rightarrow> double (1 / 10) | Medium \<Rightarrow> double (2 / 10)
              | High \<Rightarrow> double (3 / 10) | Very_high \<Rightarrow> double (4 / 10))"
  by (simp add: impactScore_def)

lemma overlaps_times:
  "overlaps rt checkIn checkOut e \<longleftrightarrow>
     (\<exists>s f. Date_getTime rt (ev_start e) = Some s \<and> Date_getTime rt (ev_end e) = Some f
        \<and> ((\<exists>i. Date_getTime rt checkIn = Some i \<and> s \<le> i \<and> i \<le> f)
           \<or> (\<exists>j. Date_getTime rt checkOut = Some j \<and> s \<le> j \<and> j \<le> f)
           \<or> (\<exists>i j. Date_getTime rt checkIn = Some i \<and> Date_getTime rt checkOut = Some j
                 \<and> i \<le> s \<and> f \<le> j)))"
  by (cases "Date_getTime rt (ev_start e)"; cases "Date_getTime rt (ev_end e)";
      cases "Date_getTime rt checkIn"; cases "Date_getTime rt checkOut")
    (auto simp add: overlaps_def isDateInRange_def date_le_def)

lemma getMonthNumber_eq:
  "getMonthNumber rt date = x \<longleftrightarrow>
     (\<exists>m. Date_getMonth rt date = Some m \<and> x = Some (m + 1))
     \<or> (Date_getMonth rt date = None \<and> x = None)"
  by (cases "Date_getMonth rt date") (auto simp add: getMonthNumber_def)

lemma is_peak_month_iff:
  "ctx_is_peak_month (calculateDemandContext rt cityDemand checkIn checkOut) \<longleftrightarrow>
     (\<exists>d s t. cityDemand = Some d \<and> demand_peak_months d = Some s \<and> s \<noteq> []
        \<and> t \<in> set (split_on 44 s)
        \<and> ((\<exists>m. Date_getMonth rt checkIn = Some m \<and> parseInt (trim t) = Some (m + 1))
           \<or> (Date_getMonth rt checkIn = None \<and> parseInt (trim t) = None)))"
proof (cases cityDemand)
  case None
  then show ?thesis
    by (simp add: calculateDemandContext_def Let_def peak_numbers_def peak_text_def)
next
  case (Some d)
  show ?thesis
  proof (cases "demand_peak_months d")
    case None
    with Some show ?thesis
      by (simp add: calculateDemandContext_def Let_def peak_numbers_def peak_text_def)
  next
    case inner: (Some s)
    show ?thesis
    proof (cases "s = []")
      case True
      with Some inner show ?thesis
        by (simp add: calculateDemandContext_def Let_def peak_numbers_def peak_text_def)
    next
      case False
      have "ctx_is_peak_month (calculateDemandContext rt cityDemand checkIn checkOut) \<longleftrightarrow>
          (\<exists>t \<in> set (split_on 44 s). getMonthNumber rt checkIn = parseInt (trim t))"
        using Some inner False
        by (auto simp add: calculateDemandContext_def Let_def peak_numbers_def peak_text_def)
      then show ?thesis
        using Some inner False by (simp add: getMonthNumber_eq Bex_def)
    qed
  qed
qed

lemma parseEvents_parts:
  "parseEvents rt (case cityDemand of None \<Rightarrow> None | Some d \<Rightarrow> demand_events d)
   = (case cityDemand of
        None \<Rightarrow> []
      | Some d \<Rightarrow>
          (case demand_events d of
             None \<Rightarrow> []
           | Some s \<Rightarrow>
               concat (map (\<lambda>part.
                   case match_event (trim part) of
                     None \<Rightarrow> []
                   | Some (name, start, finish) \<Rightarrow>
                       [\<lparr>ev_name = trim name, ev_start = start, ev_end = finish,
                         ev_impact = getEventImpact rt (trim name)\<rparr>])
                 (split_on 59 s))))"
proof -
  have fn: "parse_event rt \<circ> trim
      = (\<lambda>part. case match_event (trim part) of
                     None \<Rightarrow> []
                   | Some (name, start, finish) \<Rightarrow>
                       [\<lparr>ev_name = trim name, ev_start = start, ev_end = finish,
                         ev_impact = getEventImpact rt (trim name)\<rparr>])"
    by (rule ext) (simp add: parse_event_def)
  have empty: "trim [] = []"
    by (simp add: trim_def)
  show ?thesis
    by (simp add: parseEvents_def fn [symmetric] parse_event_def empty
        split: option.splits)
qed

text \<open>
  C6. In the weighted model the score starts at 0 (0.3 when the check-in month is a peak
  month), gains the weight of every overlapping event in their order, and is capped at 1.
  The weights are the doubles 0.1, 0.2, 0.3 and 0.4 for low, medium, high and very high,
  and every addition is rounded to the nearest double, as the code computes it. The
  check-in month is \<open>getMonth() + 1\<close>; it is a peak month when the peak months text is not
  empty and has a part, between commas, that \<open>parseInt\<close> reads as that number (or, for a
  check-in text that is no date, a part that is no number). The events are the parts of
  the events text, between semicolons and trimmed, that match the pattern; the class of
  an event is found by the keywords in its lower-cased name, the first of very high,
  high, medium that has one of its keywords, and low otherwise. An event overlaps when
  its two dates hold the check-in date, or hold the check-out date, or lie inside the
  stay, by time values with both bounds included. \<open>calculatePriceRange\<close> multiplies each
  base price by 1 + score * 0.5 in double arithmetic and rounds the product to a whole
  number at most 1/2 away from it.
\<close>

theorem weighted_demand_score:
  "demand_score (calculateDemandContext rt cityDemand checkIn checkOut)
     = min (foldl (\<lambda>score event.
                     double (score + (case ev_impact event of
                                        Low \<Rightarrow> double (1 / 10)
                                      | Medium \<Rightarrow> double (2 / 10)
                                      | High \<Rightarrow> double (3 / 10)
                                      | Very_high \<Rightarrow> double (4 / 10))))
              (if ctx_is_peak_month (calculateDemandContext rt cityDemand checkIn checkOut)
               then double (3 / 10) else 0)
              (ctx_events (calculateDemandContext rt cityDemand checkIn checkOut))) 1
   \<and> demand_score (calculateDemandContext rt cityDemand checkIn checkOut) \<le> 1
   \<and> (ctx_is_peak_month (calculateDemandContext rt cityDemand checkIn checkOut) \<longleftrightarrow>
        (\<exists>d s t. cityDemand = Some d \<and> demand_peak_months d = Some s \<and> s \<noteq> []
           \<and> t \<in> set (split_on 44 s)
           \<and> ((\<exists>m. Date_getMonth rt checkIn = Some m \<and> parseInt (trim t) = Some (m + 1))
              \<or> (Date_getMonth rt checkIn = None \<and> parseInt (trim t) = None))))
   \<and> ctx_events (calculateDemandContext rt cityDemand checkIn checkOut)
       = filter (\<lambda>e. \<exists>s f. Date_getTime rt (ev_start e) = Some s
                        \<and> Date_getTime rt (ev_end e) = Some f
                        \<and> ((\<exists>i. Date_getTime rt checkIn = Some i \<and> s \<le> i \<and> i \<le> f)
                           \<or> (\<exists>j. Date_getTime rt checkOut = Some j \<and> s \<le> j \<and> j \<le> f)
                           \<or> (\<exists>i j. Date_getTime rt checkIn = Some i
                                 \<and> Date_getTime rt checkOut = Some j \<and> i \<le> s \<and> f \<le> j)))
           (case cityDemand of
              None \<Rightarrow> []
            | Some d \<Rightarrow>
                (case demand_events d of
                   None \<Rightarrow> []
                 | Some s \<Rightarrow>
                     concat (map (\<lambda>part.
                         case match_event (trim part) of
                           None \<Rightarrow> []
                         | Some (name, start, finish) \<Rightarrow>
                             [\<lparr>ev_name = trim name, ev_start = start, ev_end = finish,
                               ev_impact = getEventImpact rt (trim name)\<rparr>])
                       (split_on 59 s))))
   \<and> getEventImpact rt title
       = (if includes_str (toLowerCase rt title) (str ''kumbh'')
             \<or> includes_str (toLowerCase rt title) (str ''diwali'')
             \<or> includes_str (toLowerCase rt title) (str ''new year'') then Very_high
          else if includes_str (toLowerCase rt title) (str ''wedding'')
             \<or> includes_str (toLowerCase rt title) (str ''durga puja'')
             \<or> includes_str (toLowerCase rt title) (str ''navratri'') then High
          else if includes_str (toLowerCase rt title) (str ''festival'')
             \<or> includes_str (toLowerCase rt title) (str ''jayanti'')
             \<or> includes_str (toLowerCase rt title) (str ''puja'') then Medium
          else Low)
   \<and> range_min (calculatePriceRange baseMin baseMax score)
       = of_int \<lfloor>double (baseMin * double (1 + double (score * (1 / 2)))) + 1 / 2\<rfloor>
   \<and> range_max (calculatePriceRange baseMin baseMax score)
       = of_int \<lfloor>double (baseMax * double (1 + double (score * (1 / 2)))) + 1 / 2\<rfloor>
   \<and> \<bar>range_min (calculatePriceRange baseMin baseMax score)
        - double (baseMin * double (1 + double (score * (1 / 2))))\<bar> \<le> 1 / 2
   \<and> \<bar>range_max (calculatePriceRange baseMin baseMax score)
        - double (baseMax * double (1 + double (score * (1 / 2))))\<bar> \<le> 1 / 2"
proof -
  let ?C = "calculateDemandContext rt cityDemand checkIn checkOut"
  have score: "demand_score ?C
     = min (foldl (\<lambda>score event.
                     double (score + (case ev_impact event of
                                        Low \<Rightarrow> double (1 / 10)
                                      | Medium \<Rightarrow> double (2 / 10)
                                      | High \<Rightarrow> double (3 / 10)
                                      | Very_high \<Rightarrow> double (4 / 10))))
              (if ctx_is_peak_month ?C then double (3 / 10) else 0)
              (ctx_events ?C)) 1"
    by (simp add: calculateDemandContext_def Let_def impactScore_eq double_peak
        del: add_0 add.left_neutral)
  have capped: "demand_score ?C \<le> 1"
    by (simp add: calculateDemandContext_def Let_def)
  have events: "ctx_events ?C
       = filter (\<lambda>e. \<exists>s f. Date_getTime rt (ev_start e) = Some s
                        \<and> Date_getTime rt (ev_end e) = Some f
                        \<and> ((\<exists>i. Date_getTime rt checkIn = Some i \<and> s \<le> i \<and> i \<le> f)
                           \<or> (\<exists>j. Date_getTime rt checkOut = Some j \<and> s \<le> j \<and> j \<le> f)
                           \<or> (\<exists>i j. Date_getTime rt checkIn = Some i
                                 \<and> Date_getTime rt checkOut = Some j \<and> i \<le> s \<and> f \<le> j)))
           (case cityDemand of
              None \<Rightarrow> []
            | Some d \<Rightarrow>
                (case demand_events d of
                   None \<Rightarrow> []
                 | Some s \<Rightarrow>
                     concat (map (\<lambda>part.
                         case match_event (trim part) of
                           None \<Rightarrow> []
                         | Some (name, start, finish) \<Rightarrow>
                             [\<lparr>ev_name = trim name, ev_start = start, ev_end = finish,
                               ev_impact = getEventImpact rt (trim name)\<rparr>])
                       (split_on 59 s))))"
    unfolding parseEvents_parts [symmetric] overlaps_times [symmetric]
    by (simp add: calculateDemandContext_def Let_def)
  have impact: "getEventImpact rt title
       = (if includes_str (toLowerCase rt title) (str ''kumbh'')
             \<or> includes_str (toLowerCase rt title) (str ''diwali'')
             \<or> includes_str (toLowerCase rt title) (str ''new year'') then Very_high
          else if includes_str (toLowerCase rt title) (str ''wedding'')
             \<or> includes_str (toLowerCase rt title) (str ''durga puja'')
             \<or> includes_str (toLowerCase rt title) (str ''navratri'') then High
          else if includes_str (toLowerCase rt title) (str ''festival'')
             \<or> includes_str (toLowerCase rt title) (str ''jayanti'')
             \<or> includes_str (toLowerCase rt title) (str ''puja'') then Medium
          else Low)"
    by (simp only: getEventImpact_def Let_def)
  have half: "double (5 / 10) = 1 / 2"
    by (simp add: double_eval)
  have lo: "range_min (calculatePriceRange baseMin baseMax score)
       = of_int \<lfloor>double (baseMin * double (1 + double (score * (1 / 2)))) + 1 / 2\<rfloor>"
    by (simp only: calculatePriceRange_def Let_def half Math_round_def price_range.simps)
  have hi: "range_max (calculatePriceRange baseMin baseMax score)
       = of_int \<lfloor>double (baseMax * double (1 + double (score * (1 / 2)))) + 1 / 2\<rfloor>"
    by (simp only: calculatePriceRange_def Let_def half Math_round_def price_range.simps)
  have near_lo: "\<bar>range_min (calculatePriceRange baseMin baseMax score)
        - double (baseMin * double (1 + double (score * (1 / 2))))\<bar> \<le> 1 / 2"
    unfolding lo by linarith
  have near_hi: "\<bar>range_max (calculatePriceRange baseMin baseMax score)
        - double (baseMax * double (1 + double (score * (1 / 2))))\<bar> \<le> 1 / 2"
    unfolding hi by linarith
  from score capped is_peak_month_iff [of rt cityDemand checkIn checkOut] events impact
    lo hi near_lo near_hi
  show ?thesis by (intro conjI)
qed

lemma impact_examples:
  "getEventImpact (example_runtime tab) (str ''Diwali Festival'') = Very_high"
  "getEventImpact (example_runtime tab) (str ''Jazz Night'') = Low"
  "getEventImpact (example_runtime tab) (str ''New Year Wedding'') = Very_high"
  "getEventImpact (example_runtime tab) (str ''Durga Puja'') = High"
  "getEventImpact (example_runtime tab) (str ''Ganesh Jayanti'') = Medium"
  "getEventImpact (example_runtime tab) (str ''Kumbh Mela'') = Very_high"
  by (simp_all add: getEventImpact_def example_runtime_def ascii_lower_def str_def starts_with_def)

lemma ex_names:
  "trim (str ''Jazz Night'') = str ''Jazz Night''"
  "trim (str ''New Year Wedding'') = str ''New Year Wedding''"
  "trim (str ''Durga Puja'') = str ''Durga Puja''"
  "trim (str ''Kumbh Mela'') = str ''Kumbh Mela''"
  by (simp_all add: trim_def str_def is_white_space_def)

lemma ex_wedding:
  "match_event wedding = Some (str ''New Year Wedding'', str ''2024-11-03'', str ''2024-11-08'')"
  by (simp add: wedding_def pattern_defs)

lemma ex_events_trimmed: "map trim (split_on 59 example_events) = [diwali, jazz]"
  by (simp add: example_events_def diwali_def jazz_def str_def trim_def is_white_space_def)

lemma crowded_trimmed: "map trim (split_on 59 (diwali @ str ''; '' @ wedding)) = [diwali, wedding]"
  by (simp add: diwali_def wedding_def str_def trim_def is_white_space_def)

lemma ganesh_trimmed:
  "match_event (trim ganesh)
   = Some (str ''Ganesh Jayanti'', str ''2024-12-05'', str ''2024-12-07'')"
  by (simp add: ganesh_def trim_def pattern_defs)

lemma winter_trimmed:
  "trim durga = durga" "trim kumbh = kumbh" "trim expo = expo"
  by (simp_all add: durga_def kumbh_def expo_def trim_def str_def is_white_space_def)

lemma ex_trim_jayanti: "trim (str ''Ganesh Jayanti'') = str ''Ganesh Jayanti''"
  by (simp add: trim_def str_def is_white_space_def)

lemma ex_events_parsed:
  "parseEvents (example_runtime tab) (Some example_events)
   = [\<lparr>ev_name = str ''Diwali Festival'', ev_start = str ''2024-11-01'',
       ev_end = str ''2024-11-05'', ev_impact = Very_high\<rparr>,
      \<lparr>ev_name = str ''Jazz Night'', ev_start = str ''2024-11-02'',
       ev_end = str ''2024-11-03'', ev_impact = Low\<rparr>]"
proof -
  have "example_events \<noteq> []"
    by (simp add: example_events_def str_def)
  then show ?thesis
    by (simp add: parseEvents_def ex_events_trimmed parse_event_def ex_diwali ex_jazz
        ex_trim ex_names impact_examples)
qed

lemma crowded_events_parsed:
  "parseEvents (example_runtime tab) (Some (diwali @ str ''; '' @ wedding))
   = [\<lparr>ev_name = str ''Diwali Festival'', ev_start = str ''2024-11-01'',
       ev_end = str ''2024-11-05'', ev_impact = Very_high\<rparr>,
      \<lparr>ev_name = str ''New Year Wedding'', ev_start = str ''2024-11-03'',
       ev_end = str ''2024-11-08'', ev_impact = Very_high\<rparr>]"
proof -
  have "diwali @ str ''; '' @ wedding \<noteq> []"
    by (simp add: str_def)
  then show ?thesis
    by (simp add: parseEvents_def crowded_trimmed parse_event_def ex_diwali ex_wedding
        ex_trim ex_names impact_examples)
qed

lemma winter_events_parsed:
  "parseEvents (example_runtime tab)
     (Some (durga @ [59] @ ganesh @ [59] @ kumbh @ [59] @ expo))
   = [\<lparr>ev_name = str ''Durga Puja'', ev_start = str ''2024-12-04'',
       ev_end = str ''2024-12-06'', ev_impact = High\<rparr>,
      \<lparr>ev_name = str ''Ganesh Jayanti'', ev_start = str ''2024-12-05'',
       ev_end = str ''2024-12-07'', ev_impact = Medium\<rparr>,
      \<lparr>ev_name = str ''Kumbh Mela'', ev_start = str ''2025-01-10'',
       ev_end = str ''2025-01-20'', ev_impact = Very_high\<rparr>]"
proof -
  have "durga @ [59] @ ganesh @ [59] @ kumbh @ [59] @ expo \<noteq> []"
    by (simp add: durga_def str_def)
  with winter_split show ?thesis
    by (simp add: parseEvents_def parse_event_def winter_trimmed ganesh_trimmed winter_matches
        ex_names ex_trim_jayanti impact_examples)
qed

lemma rows_parsed:
  "parseEvents (example_runtime tab) (demand_events example_demand)
   = [\<lparr>ev_name = str ''Diwali Festival'', ev_start = str ''2024-11-01'',
       ev_end = str ''2024-11-05'', ev_impact = Very_high\<rparr>,
      \<lparr>ev_name = str ''Jazz Night'', ev_start = str ''2024-11-02'',
       ev_end = str ''2024-11-03'', ev_impact = Low\<rparr>]"
  "parseEvents (example_runtime tab) (demand_events crowded_demand)
   = [\<lparr>ev_name = str ''Diwali Festival'', ev_start = str ''2024-11-01'',
       ev_end = str ''2024-11-05'', ev_impact = Very_high\<rparr>,
      \<lparr>ev_name = str ''New Year Wedding'', ev_start = str ''2024-11-03'',
       ev_end = str ''2024-11-08'', ev_impact = Very_high\<rparr>]"
  "parseEvents (example_runtime tab) (demand_events winter_demand)
   = [\<lparr>ev_name = str ''Durga Puja'', ev_start = str ''2024-12-04'',
       ev_end = str ''2024-12-06'', ev_impact = High\<rparr>,
      \<lparr>ev_name = str ''Ganesh Jayanti'', ev_start = str ''2024-12-05'',
       ev_end = str ''2024-12-07'', ev_impact = Medium\<rparr>,
      \<lparr>ev_name = str ''Kumbh Mela'', ev_start = str ''2025-01-10'',
       ev_end = str ''2025-01-20'', ev_impact = Very_high\<rparr>]"
  using ex_events_parsed [of tab] crowded_events_parsed [of tab] winter_events_parsed [of tab]
  by (simp_all add: example_demand_def crowded_demand_def winter_demand_def)

lemma peak_numbers_examples:
  "peak_numbers (Some example_demand) = [Some 10, Some 11]"
  "peak_numbers (Some crowded_demand) = [Some 10, Some 11]"
  "peak_numbers (Some winter_demand) = [Some 10, Some 11]"
  "peak_text (Some example_demand) = Some (str ''10, 11'')"
  "peak_text (Some crowded_demand) = Some (str ''10, 11'')"
  "peak_text (Some winter_demand) = Some (str ''10, 11'')"
proof -
  have "str ''10, 11'' \<noteq> []"
    by (simp add: str_def)
  then show
    "peak_numbers (Some example_demand) = [Some 10, Some 11]"
    "peak_numbers (Some crowded_demand) = [Some 10, Some 11]"
    "peak_numbers (Some winter_demand) = [Some 10, Some 11]"
    "peak_text (Some example_demand) = Some (str ''10, 11'')"
    "peak_text (Some crowded_demand) = Some (str ''10, 11'')"
    "peak_text (Some winter_demand) = Some (str ''10, 11'')"
    by (simp_all add: peak_numbers_def peak_text_def example_demand_def crowded_demand_def
        winter_demand_def ex_peak_split ex_peak_parsed)
qed

lemma ex_time_out: "Date_getTime (example_runtime tab) (str ''2024-11-04'') = Some 1730678400000"
  by (simp add: date_defs)

lemma december_times:
  "Date_getTime (example_runtime tab) (str ''2024-12-01'') = Some 1733011200000"
  "Date_getTime (example_runtime tab) (str ''2024-12-03'') = Some 1733184000000"
  "Date_getTime (example_runtime tab) (str ''2024-12-10'') = Some 1733788800000"
  "Date_getTime (example_runtime tab) (str ''2024-12-12'') = Some 1733961600000"
  "Date_getTime (example_runtime tab) (str ''2024-12-31'') = Some 1735603200000"
  by (simp_all add: date_defs)

lemma december_months:
  "Date_getMonth (example_runtime tab) (str ''2024-12-01'') = Some 11"
  "Date_getMonth (example_runtime tab) (str ''2024-12-03'') = Some 11"
  "Date_getMonth (example_runtime tab) (str ''2024-12-10'') = Some 11"
  by (simp_all add: date_defs)

lemma score_sums:
  "double (double (double (3 / 10) + double (4 / 10)) + double (1 / 10))
   = 7205759403792793 / 2 ^ 53"
  "double (double (0 + double (3 / 10)) + double (2 / 10)) = 1 / 2"
  "double (0 + double (3 / 10)) = 5404319552844595 / 2 ^ 54"
  "1 \<le> double (double (double (3 / 10) + double (4 / 10)) + double (4 / 10))"
  by (simp_all add: double_eval)

lemma range_example:
  "double (3010 * double (1 + double (double (3 / 10) * (1 / 2)))) = 7611918999093247 / 2 ^ 41"
  "double (7490 * double (1 + double (double (3 / 10) * (1 / 2)))) = 17227 / 2"
  by (simp_all add: double_eval)

lemmas context_defs = calculateDemandContext_def Let_def getMonthNumber_def overlaps_def
  isDateInRange_def date_le_def

theorem weighted_demand_score_witness:
  "calculateDemandContext (example_runtime []) (Some example_demand)
       (str ''2024-11-02'') (str ''2024-11-04'')
     = \<lparr>ctx_is_peak_month = True, ctx_peak_months = Some (str ''10, 11''),
        ctx_events =
          [\<lparr>ev_name = str ''Diwali Festival'', ev_start = str ''2024-11-01'',
            ev_end = str ''2024-11-05'', ev_impact = Very_high\<rparr>,
           \<lparr>ev_name = str ''Jazz Night'', ev_start = str ''2024-11-02'',
            ev_end = str ''2024-11-03'', ev_impact = Low\<rparr>],
        demand_score = 7205759403792793 / 2 ^ 53\<rparr>
   \<and> Date_getMonth (example_runtime []) (str ''2024-12-05'') = Some 11
   \<and> match_event (trim expo) = None
   \<and> calculateDemandContext (example_runtime []) (Some winter_demand)
       (str ''2024-12-05'') (str ''2024-12-06'')
     = \<lparr>ctx_is_peak_month = False, ctx_peak_months = Some (str ''10, 11''),
        ctx_events =
          [\<lparr>ev_name = str ''Durga Puja'', ev_start = str ''2024-12-04'',
            ev_end = str ''2024-12-06'', ev_impact = High\<rparr>,
           \<lparr>ev_name = str ''Ganesh Jayanti'', ev_start = str ''2024-12-05'',
            ev_end = str ''2024-12-07'', ev_impact = Medium\<rparr>],
        demand_score = 1 / 2\<rparr>
   \<and> calculateDemandContext (example_runtime []) (Some winter_demand)
       (str ''2024-12-03'') (str ''2024-12-04'')
     = \<lparr>ctx_is_peak_month = False, ctx_peak_months = Some (str ''10, 11''),
        ctx_events =
          [\<lparr>ev_name = str ''Durga Puja'', ev_start = str ''2024-12-04'',
            ev_end = str ''2024-12-06'', ev_impact = High\<rparr>],
        demand_score = 5404319552844595 / 2 ^ 54\<rparr>
   \<and> calculateDemandContext (example_runtime []) (Some winter_demand)
       (str ''2024-12-01'') (str ''2024-12-31'')
     = \<lparr>ctx_is_peak_month = False, ctx_peak_months = Some (str ''10, 11''),
        ctx_events =
          [\<lparr>ev_name = str ''Durga Puja'', ev_start = str ''2024-12-04'',
            ev_end = str ''2024-12-06'', ev_impact = High\<rparr>,
           \<lparr>ev_name = str ''Ganesh Jayanti'', ev_start = str ''2024-12-05'',
            ev_end = str ''2024-12-07'', ev_impact = Medium\<rparr>],
        demand_score = 1 / 2\<rparr>
   \<and> calculateDemandContext (example_runtime []) (Some winter_demand)
       (str ''2024-12-10'') (str ''2024-12-12'')
     = \<lparr>ctx_is_peak_month = False, ctx_peak_months = Some (str ''10, 11''),
        ctx_events = [], demand_score = 0\<rparr>
   \<and> demand_score (calculateDemandContext (example_runtime []) (Some crowded_demand)
        (str ''2024-11-02'') (str ''2024-11-04'')) = 1
   \<and> double (1 / 10) = 3602879701896397 / 2 ^ 55
   \<and> double (3 / 10) = 5404319552844595 / 2 ^ 54
   \<and> calculatePriceRange 3010 7490 (double (3 / 10)) = \<lparr>range_min = 3461, range_max = 8614\<rparr>"
proof -
  let ?rt = "example_runtime []"
  let ?diwali = "\<lparr>ev_name = str ''Diwali Festival'', ev_start = str ''2024-11-01'',
            ev_end = str ''2024-11-05'', ev_impact = Very_high\<rparr>"
  let ?jazz = "\<lparr>ev_name = str ''Jazz Night'', ev_start = str ''2024-11-02'',
            ev_end = str ''2024-11-03'', ev_impact = Low\<rparr>"
  let ?durga = "\<lparr>ev_name = str ''Durga Puja'', ev_start = str ''2024-12-04'',
            ev_end = str ''2024-12-06'', ev_impact = High\<rparr>"
  let ?ganesh = "\<lparr>ev_name = str ''Ganesh Jayanti'', ev_start = str ''2024-12-05'',
            ev_end = str ''2024-12-07'', ev_impact = Medium\<rparr>"
  let ?A = "calculateDemandContext ?rt (Some example_demand) (str ''2024-11-02'') (str ''2024-11-04'')"
  have A_peak: "ctx_is_peak_month ?A = True"
    by (simp add: context_defs peak_numbers_examples ex_months)
  have A_text: "ctx_peak_months ?A = Some (str ''10, 11'')"
    by (simp add: context_defs peak_numbers_examples)
  have A_events: "ctx_events ?A = [?diwali, ?jazz]"
    by (simp add: context_defs rows_parsed ex_times ex_time_out)
  have A_score: "demand_score ?A = 7205759403792793 / 2 ^ 53"
    unfolding weighted_demand_score [where rt = ?rt and cityDemand = "Some example_demand"
        and checkIn = "str ''2024-11-02''" and checkOut = "str ''2024-11-04''", THEN conjunct1]
      A_peak A_events
    by (simp add: double_eval)
  have A: "?A = \<lparr>ctx_is_peak_month = True, ctx_peak_months = Some (str ''10, 11''),
        ctx_events = [?diwali, ?jazz], demand_score = 7205759403792793 / 2 ^ 53\<rparr>"
    by (rule demand_score_context.equality) (simp_all add: A_peak A_text A_events A_score)
  let ?B = "calculateDemandContext ?rt (Some winter_demand) (str ''2024-12-05'') (str ''2024-12-06'')"
  have B_peak: "ctx_is_peak_month ?B = False"
    by (simp add: context_defs peak_numbers_examples winter_months)
  have B_text: "ctx_peak_months ?B = Some (str ''10, 11'')"
    by (simp add: context_defs peak_numbers_examples)
  have B_events: "ctx_events ?B = [?durga, ?ganesh]"
    by (simp add: context_defs rows_parsed winter_times)
  have B_score: "demand_score ?B = 1 / 2"
    unfolding weighted_demand_score [where rt = ?rt and cityDemand = "Some winter_demand"
        and checkIn = "str ''2024-12-05''" and checkOut = "str ''2024-12-06''", THEN conjunct1]
      B_peak B_events
    by (simp add: double_eval)
  have B: "?B = \<lparr>ctx_is_peak_month = False, ctx_peak_months = Some (str ''10, 11''),
        ctx_events = [?durga, ?ganesh], demand_score = 1 / 2\<rparr>"
    by (rule demand_score_context.equality) (simp_all add: B_peak B_text B_events B_score)
  let ?D = "calculateDemandContext ?rt (Some winter_demand) (str ''2024-12-03'') (str ''2024-12-04'')"
  have D_peak: "ctx_is_peak_month ?D = False"
    by (simp add: context_defs peak_numbers_examples december_months)
  have D_text: "ctx_peak_months ?D = Some (str ''10, 11'')"
    by (simp add: context_defs peak_numbers_examples)
  have D_events: "ctx_events ?D = [?durga]"
    by (simp add: context_defs rows_parsed winter_times december_times)
  have D_score: "demand_score ?D = 5404319552844595 / 2 ^ 54"
    unfolding weighted_demand_score [where rt = ?rt and cityDemand = "Some winter_demand"
        and checkIn = "str ''2024-12-03''" and checkOut = "str ''2024-12-04''", THEN conjunct1]
      D_peak D_events
    by (simp add: double_eval)
  have D: "?D = \<lparr>ctx_is_peak_month = False, ctx_peak_months = Some (str ''10, 11''),
        ctx_events = [?durga], demand_score = 5404319552844595 / 2 ^ 54\<rparr>"
    by (rule demand_score_context.equality) (simp_all add: D_peak D_text D_events D_score)
  let ?E = "calculateDemandContext ?rt (Some winter_demand) (str ''2024-12-01'') (str ''2024-12-31'')"
  have E_peak: "ctx_is_peak_month ?E = False"
    by (simp add: context_defs peak_numbers_examples december_months)
  have E_text: "ctx_peak_months ?E = Some (str ''10, 11'')"
    by (simp add: context_defs peak_numbers_examples)
  have E_events: "ctx_events ?E = [?durga, ?ganesh]"
    by (simp add: context_defs rows_parsed winter_times december_times)
  have E_score: "demand_score ?E = 1 / 2"
    unfolding weighted_demand_score [where rt = ?rt and cityDemand = "Some winter_demand"
        and checkIn = "str ''2024-12-01''" and checkOut = "str ''2024-12-31''", THEN conjunct1]
      E_peak E_events
    by (simp add: double_eval)
  have E: "?E = \<lparr>ctx_is_peak_month = False, ctx_peak_months = Some (str ''10, 11''),
        ctx_events = [?durga, ?ganesh], demand_score = 1 / 2\<rparr>"
    by (rule demand_score_context.equality) (simp_all add: E_peak E_text E_events E_score)
  let ?G = "calculateDemandContext ?rt (Some winter_demand) (str ''2024-12-10'') (str ''2024-12-12'')"
  have G_peak: "ctx_is_peak_month ?G = False"
    by (simp add: context_defs peak_numbers_examples december_months)
  have G_text: "ctx_peak_months ?G = Some (str ''10, 11'')"
    by (simp add: context_defs peak_numbers_examples)
  have G_events: "ctx_events ?G = []"
    by (simp add: context_defs rows_parsed winter_times december_times)
  have G_score: "demand_score ?G = 0"
    unfolding weighted_demand_score [where rt = ?rt and cityDemand = "Some winter_demand"
        and checkIn = "str ''2024-12-10''" and checkOut = "str ''2024-12-12''", THEN conjunct1]
      G_peak G_events
    by (simp add: double_eval)
  have G: "?G = \<lparr>ctx_is_peak_month = False, ctx_peak_months = Some (str ''10, 11''),
        ctx_events = [], demand_score = 0\<rparr>"
    by (rule demand_score_context.equality) (simp_all add: G_peak G_text G_events G_score)
  let ?wedding = "\<lparr>ev_name = str ''New Year Wedding'', ev_start = str ''2024-11-03'',
            ev_end = str ''2024-11-08'', ev_impact = Very_high\<rparr>"
  let ?F = "calculateDemandContext ?rt (Some crowded_demand) (str ''2024-11-02'') (str ''2024-11-04'')"
  have F_peak: "ctx_is_peak_month ?F = True"
    by (simp add: context_defs peak_numbers_examples ex_months)
  have F_events: "ctx_events ?F = [?diwali, ?wedding]"
    by (simp add: context_defs rows_parsed ex_times ex_time_out
        ex_time_late)
  have F: "demand_score ?F = 1"
    unfolding weighted_demand_score [where rt = ?rt and cityDemand = "Some crowded_demand"
        and checkIn = "str ''2024-11-02''" and checkOut = "str ''2024-11-04''", THEN conjunct1]
      F_peak F_events
    by (simp add: double_eval)
  have unparsed: "match_event (trim expo) = None"
    by (simp add: winter_trimmed winter_matches)
  note R = weighted_demand_score [where baseMin = 3010 and baseMax = 7490
      and score = "double (3 / 10)", THEN conjunct2, THEN conjunct2, THEN conjunct2,
      THEN conjunct2, THEN conjunct2]
  have lo: "range_min (calculatePriceRange 3010 7490 (double (3 / 10))) = 3461"
    unfolding R [THEN conjunct1] range_example by simp
  have hi: "range_max (calculatePriceRange 3010 7490 (double (3 / 10))) = 8614"
    unfolding R [THEN conjunct2, THEN conjunct1] range_example by simp
  have range: "calculatePriceRange 3010 7490 (double (3 / 10))
      = \<lparr>range_min = 3461, range_max = 8614\<rparr>"
    by (rule price_range.equality) (simp_all add: lo hi)
  from A winter_months(1) unparsed B D E G F double_literals(1) double_literals(3) range
  show ?thesis by (intro conjI)
qed

end
